theory Spec2Isabelle
  imports Complex_Main
begin

section \<open>Numbers of the source language\<close>

text \<open>
  The source is TypeScript: every \<open>number\<close> is either a finite value, one of the two
  infinities, or NaN. The finite values are modelled as exact reals (no rounding and no
  overflow); zero is unsigned and divides like \<open>+0\<close>. The operations follow the
  language's arithmetic on the special values: NaN absorbs, every comparison with NaN
  is false, \<open>x / 0\<close> is an infinity (or NaN for \<open>0 / 0\<close>).
\<close>

datatype jsnum = NaN | PInf | NInf | Fin real

fun isNaN :: "jsnum \<Rightarrow> bool" where
  "isNaN NaN = True"
| "isNaN _ = False"

fun isFinite :: "jsnum \<Rightarrow> bool" where
  "isFinite (Fin _) = True"
| "isFinite _ = False"

fun jneg :: "jsnum \<Rightarrow> jsnum" where
  "jneg NaN = NaN"
| "jneg PInf = NInf"
| "jneg NInf = PInf"
| "jneg (Fin a) = Fin (- a)"

fun jadd :: "jsnum \<Rightarrow> jsnum \<Rightarrow> jsnum" where
  "jadd (Fin a) (Fin b) = Fin (a + b)"
| "jadd NaN _ = NaN"
| "jadd _ NaN = NaN"
| "jadd PInf NInf = NaN"
| "jadd NInf PInf = NaN"
| "jadd PInf _ = PInf"
| "jadd _ PInf = PInf"
| "jadd NInf _ = NInf"
| "jadd _ NInf = NInf"

definition jsub :: "jsnum \<Rightarrow> jsnum \<Rightarrow> jsnum" where
  "jsub a b = jadd a (jneg b)"

fun jmul :: "jsnum \<Rightarrow> jsnum \<Rightarrow> jsnum" where
  "jmul (Fin a) (Fin b) = Fin (a * b)"
| "jmul NaN _ = NaN"
| "jmul _ NaN = NaN"
| "jmul PInf PInf = PInf"
| "jmul PInf NInf = NInf"
| "jmul NInf PInf = NInf"
| "jmul NInf NInf = PInf"
| "jmul PInf (Fin b) = (if b = 0 then NaN else if 0 < b then PInf else NInf)"
| "jmul NInf (Fin b) = (if b = 0 then NaN else if 0 < b then NInf else PInf)"
| "jmul (Fin a) PInf = (if a = 0 then NaN else if 0 < a then PInf else NInf)"
| "jmul (Fin a) NInf = (if a = 0 then NaN else if 0 < a then NInf else PInf)"

fun jdiv :: "jsnum \<Rightarrow> jsnum \<Rightarrow> jsnum" where
  "jdiv (Fin a) (Fin b) =
     (if b = 0 then (if a = 0 then NaN else if 0 < a then PInf else NInf)
      else Fin (a / b))"
| "jdiv NaN _ = NaN"
| "jdiv _ NaN = NaN"
| "jdiv (Fin a) _ = Fin 0"
| "jdiv PInf (Fin b) = (if 0 \<le> b then PInf else NInf)"
| "jdiv NInf (Fin b) = (if 0 \<le> b then NInf else PInf)"
| "jdiv _ _ = NaN"

fun jlt :: "jsnum \<Rightarrow> jsnum \<Rightarrow> bool" where
  "jlt (Fin a) (Fin b) = (a < b)"
| "jlt NaN _ = False"
| "jlt _ NaN = False"
| "jlt _ NInf = False"
| "jlt NInf _ = True"
| "jlt PInf _ = False"
| "jlt _ PInf = True"

fun jle :: "jsnum \<Rightarrow> jsnum \<Rightarrow> bool" where
  "jle (Fin a) (Fin b) = (a \<le> b)"
| "jle NaN _ = False"
| "jle _ NaN = False"
| "jle NInf _ = True"
| "jle _ PInf = True"
| "jle _ _ = False"

definition jgt :: "jsnum \<Rightarrow> jsnum \<Rightarrow> bool" where
  "jgt a b = jlt b a"

definition jge :: "jsnum \<Rightarrow> jsnum \<Rightarrow> bool" where
  "jge a b = jle b a"

text \<open>Truthiness of a number: \<open>0\<close> and NaN are falsy.\<close>

fun truthy :: "jsnum \<Rightarrow> bool" where
  "truthy NaN = False"
| "truthy (Fin a) = (a \<noteq> 0)"
| "truthy _ = True"

text \<open>\<open>x || d\<close> on numbers, where \<open>x\<close> may be absent (\<open>undefined\<close> or \<open>null\<close>).\<close>

fun or_default :: "jsnum option \<Rightarrow> jsnum \<Rightarrow> jsnum" where
  "or_default None d = d"
| "or_default (Some x) d = (if truthy x then x else d)"

fun jabs :: "jsnum \<Rightarrow> jsnum" where
  "jabs NaN = NaN"
| "jabs PInf = PInf"
| "jabs NInf = PInf"
| "jabs (Fin a) = Fin \<bar>a\<bar>"

text \<open>\<open>Math.min\<close> of two numbers: NaN if either is NaN.\<close>

fun jmin :: "jsnum \<Rightarrow> jsnum \<Rightarrow> jsnum" where
  "jmin NaN _ = NaN"
| "jmin _ NaN = NaN"
| "jmin a b = (if jlt b a then b else a)"

text \<open>\<open>Math.sqrt\<close>.\<close>

fun jsqrt :: "jsnum \<Rightarrow> jsnum" where
  "jsqrt (Fin a) = (if a < 0 then NaN else Fin (sqrt a))"
| "jsqrt PInf = PInf"
| "jsqrt _ = NaN"

text \<open>
  A failure of a collaborator (exchange, storage) or a \<open>throw\<close> of the code itself is a
  value: \<open>Inl\<close> of the error, carrying its message.
\<close>

datatype error = Error string

text \<open>\<open>s.replace(pat, '')\<close>: the first occurrence of \<open>pat\<close> is removed.\<close>

fun remove_first :: "string \<Rightarrow> string \<Rightarrow> string" where
  "remove_first pat [] = []"
| "remove_first pat (c # cs) =
     (if take (length pat) (c # cs) = pat then drop (length pat) (c # cs)
      else c # remove_first pat cs)"

text \<open>Decimal digits of a natural number, most significant first, and of an integer.\<close>

definition digit_char :: "nat \<Rightarrow> char" where
  "digit_char d = ''0123456789'' ! d"

fun digits :: "nat \<Rightarrow> string" where
  "digits n = (if n < 10 then [digit_char n] else digits (n div 10) @ [digit_char (n mod 10)])"

declare digits.simps [simp del]

definition int_toString :: "int \<Rightarrow> string" where
  "int_toString i = (if i < 0 then CHR ''-'' # digits (nat (- i)) else digits (nat i))"

section \<open>Shared storage rows\<close>

text \<open>
  A row of the \<open>positions\<close> table. The numeric columns are decimal strings that the code
  reads with \<open>parseFloat\<close> and writes with \<open>toString\<close>; the model keeps the number.
  A nullable column is an option: \<open>None\<close> is \<open>null\<close> (falsy in a condition).
\<close>

record position =
  pos_id :: string
  pos_strategyId :: string
  pos_symbol :: string
  pos_quantity :: jsnum
  pos_entryPrice :: jsnum
  pos_currentPrice :: "jsnum option"
  pos_stopLoss :: "jsnum option"
  pos_takeProfit :: "jsnum option"
  pos_unrealizedPnl :: "jsnum option"
  pos_unrealizedPnlPercent :: "jsnum option"
  pos_closedAt :: "int option"
  pos_isOpen :: bool

datatype side = BUY | SELL

section \<open>Risk calculator (riskCalculator.ts)\<close>

datatype risk_level = Low | Medium | High

text \<open>
  The reason of a result. Each constructor stands for one message of the source and
  carries the numbers the message interpolates:
  \<^item> \<open>InsufficientBalance\<close>: \<^verbatim>\<open>Insufficient balance\<close>;
  \<^item> \<open>PositionSizeExceeds p m\<close>: \<^verbatim>\<open>Position size p% exceeds maximum m%\<close>;
  \<^item> \<open>MaxConcurrentReached m\<close>: \<^verbatim>\<open>Maximum concurrent positions (m) reached\<close>;
  \<^item> \<open>DailyLossExceeded m l\<close>: \<^verbatim>\<open>Daily loss limit (m%) exceeded: l%\<close>;
  \<^item> \<open>CorrelatedAsset\<close>: \<^verbatim>\<open>Position in correlated asset detected\<close>;
  \<^item> \<open>Thrown e\<close>: \<open>String(error)\<close> of a caught exception.
\<close>

datatype reason =
    InsufficientBalance
  | PositionSizeExceeds jsnum jsnum
  | MaxConcurrentReached jsnum
  | DailyLossExceeded jsnum jsnum
  | CorrelatedAsset
  | Thrown error

record risk_check_result =
  allowed :: bool
  reason :: "reason option"
  riskLevel :: risk_level

record limits =
  maxPositionSizePercent :: jsnum
  stopLossPercent :: jsnum
  takeProfitPercent :: jsnum
  dailyLossLimitPercent :: jsnum
  maxConcurrentPositions :: jsnum

text \<open>
  A row of \<open>risk_limits\<close>: the decimal columns are strings (\<open>None\<close>: null or empty, so
  that \<open>||\<close> takes the default; \<open>Some v\<close>: the string's \<open>parseFloat\<close>), the position
  count is a number.
\<close>

record limits_row =
  row_maxPositionSizePercent :: "jsnum option"
  row_stopLossPercent :: "jsnum option"
  row_takeProfitPercent :: "jsnum option"
  row_dailyLossLimitPercent :: "jsnum option"
  row_maxConcurrentPositions :: "jsnum option"

record balance =
  bal_free :: jsnum
  bal_locked :: jsnum
  bal_total :: jsnum

text \<open>
  What the collaborators answer during one call of \<open>checkTradeRisk\<close>, one field per
  call in the order the code makes them: the limits query, the balance read of the size
  check, the open positions of the count check, today's trades (their \<open>pnl\<close> column) and
  the balance read of the loss check, the open positions of the correlation check.
\<close>

record risk_env =
  limitsQuery :: "string \<Rightarrow> error + limits_row option"
  balanceForSize :: "error + balance option"
  openForCount :: "error + position list"
  todayTrades :: "error + jsnum option list"
  balanceForLoss :: "error + balance option"
  openForCorrelation :: "error + position list"

definition string_or :: "jsnum option \<Rightarrow> jsnum \<Rightarrow> jsnum" where
  "string_or field d = (case field of None \<Rightarrow> d | Some v \<Rightarrow> v)"

definition getRiskLimits :: "limits \<Rightarrow> risk_env \<Rightarrow> string \<Rightarrow> error + limits" where
  "getRiskLimits cfg env userId =
     (case limitsQuery env userId of
        Inl e \<Rightarrow> Inl e
      | Inr None \<Rightarrow> Inr cfg
      | Inr (Some row) \<Rightarrow> Inr
          \<lparr> maxPositionSizePercent =
              string_or (row_maxPositionSizePercent row) (maxPositionSizePercent cfg),
            stopLossPercent = string_or (row_stopLossPercent row) (stopLossPercent cfg),
            takeProfitPercent = string_or (row_takeProfitPercent row) (takeProfitPercent cfg),
            dailyLossLimitPercent =
              string_or (row_dailyLossLimitPercent row) (dailyLossLimitPercent cfg),
            maxConcurrentPositions =
              or_default (row_maxConcurrentPositions row) (maxConcurrentPositions cfg) \<rparr>)"

definition deny :: "reason \<Rightarrow> risk_check_result" where
  "deny r = \<lparr> allowed = False, reason = Some r, riskLevel = High \<rparr>"

definition allow :: "risk_level \<Rightarrow> risk_check_result" where
  "allow l = \<lparr> allowed = True, reason = None, riskLevel = l \<rparr>"

definition positionPercent :: "jsnum \<Rightarrow> jsnum \<Rightarrow> balance \<Rightarrow> jsnum" where
  "positionPercent quantity price b =
     jmul (jdiv (jmul quantity price) (bal_total b)) (Fin 100)"

definition checkPositionSize ::
  "risk_env \<Rightarrow> jsnum \<Rightarrow> jsnum \<Rightarrow> limits \<Rightarrow> error + risk_check_result" where
  "checkPositionSize env quantity price lims =
     (case balanceForSize env of
        Inl e \<Rightarrow> Inl e
      | Inr None \<Rightarrow> Inr (deny InsufficientBalance)
      | Inr (Some b) \<Rightarrow>
          if bal_total b = Fin 0 then Inr (deny InsufficientBalance)
          else if jgt (positionPercent quantity price b) (maxPositionSizePercent lims)
          then Inr (deny (PositionSizeExceeds (positionPercent quantity price b)
                            (maxPositionSizePercent lims)))
          else Inr (allow Medium))"

definition checkConcurrentPositions :: "risk_env \<Rightarrow> limits \<Rightarrow> error + risk_check_result" where
  "checkConcurrentPositions env lims =
     (case openForCount env of
        Inl e \<Rightarrow> Inl e
      | Inr openPositions \<Rightarrow>
          if jge (Fin (real (length openPositions))) (maxConcurrentPositions lims)
          then Inr (deny (MaxConcurrentReached (maxConcurrentPositions lims)))
          else Inr (allow Medium))"

definition todayPnL :: "jsnum option list \<Rightarrow> jsnum" where
  "todayPnL ts = foldl (\<lambda>sum pnl. jadd sum (string_or pnl (Fin 0))) (Fin 0) ts"

definition lossPercent :: "jsnum option list \<Rightarrow> balance \<Rightarrow> jsnum" where
  "lossPercent ts b =
     jmul (jdiv (jabs (jmin (Fin 0) (todayPnL ts))) (bal_total b)) (Fin 100)"

definition checkDailyLossLimit :: "risk_env \<Rightarrow> limits \<Rightarrow> error + risk_check_result" where
  "checkDailyLossLimit env lims =
     (case todayTrades env of
        Inl e \<Rightarrow> Inl e
      | Inr ts \<Rightarrow>
         (case balanceForLoss env of
            Inl e \<Rightarrow> Inl e
          | Inr None \<Rightarrow> Inr (allow Medium)
          | Inr (Some b) \<Rightarrow>
              if bal_total b = Fin 0 then Inr (allow Medium)
              else if jge (lossPercent ts b) (dailyLossLimitPercent lims)
              then Inr (deny (DailyLossExceeded (dailyLossLimitPercent lims) (lossPercent ts b)))
              else Inr (allow Medium)))"

definition checkCorrelation :: "risk_env \<Rightarrow> string \<Rightarrow> error + risk_check_result" where
  "checkCorrelation env symbol =
     (case openForCorrelation env of
        Inl e \<Rightarrow> Inl e
      | Inr openPositions \<Rightarrow>
         (case find (\<lambda>p. pos_symbol p = symbol
                         \<or> remove_first ''USDT'' (pos_symbol p) = remove_first ''USDT'' symbol)
                 openPositions of
            Some existingPosition \<Rightarrow>
              if pos_symbol existingPosition = symbol then Inr (allow Medium)
              else Inr \<lparr> allowed = True, reason = Some CorrelatedAsset, riskLevel = Medium \<rparr>
          | None \<Rightarrow> Inr (allow Low)))"

text \<open>
  The body of the \<open>try\<close> block: each check runs only when the one before it allowed, and
  the first denial is returned as it is. \<open>Inl\<close> is an exception on the way.
\<close>

definition checkTradeRisk_body ::
  "limits \<Rightarrow> risk_env \<Rightarrow> string \<Rightarrow> string \<Rightarrow> jsnum \<Rightarrow> jsnum \<Rightarrow> side
     \<Rightarrow> error + risk_check_result" where
  "checkTradeRisk_body cfg env userId symbol quantity price sd =
     (case getRiskLimits cfg env userId of
        Inl e \<Rightarrow> Inl e
      | Inr lims \<Rightarrow>
     (case checkPositionSize env quantity price lims of
        Inl e \<Rightarrow> Inl e
      | Inr positionSizeCheck \<Rightarrow>
          if \<not> allowed positionSizeCheck then Inr positionSizeCheck else
     (case checkConcurrentPositions env lims of
        Inl e \<Rightarrow> Inl e
      | Inr concurrentCheck \<Rightarrow>
          if \<not> allowed concurrentCheck then Inr concurrentCheck else
     (case checkDailyLossLimit env lims of
        Inl e \<Rightarrow> Inl e
      | Inr dailyLossCheck \<Rightarrow>
          if \<not> allowed dailyLossCheck then Inr dailyLossCheck else
     (case checkCorrelation env symbol of
        Inl e \<Rightarrow> Inl e
      | Inr correlationCheck \<Rightarrow>
          if \<not> allowed correlationCheck then Inr correlationCheck
          else Inr (allow Medium))))))"

definition checkTradeRisk ::
  "limits \<Rightarrow> risk_env \<Rightarrow> string \<Rightarrow> string \<Rightarrow> jsnum \<Rightarrow> jsnum \<Rightarrow> side
     \<Rightarrow> risk_check_result" where
  "checkTradeRisk cfg env userId symbol quantity price sd =
     (case checkTradeRisk_body cfg env userId symbol quantity price sd of
        Inl e \<Rightarrow> deny (Thrown e)
      | Inr r \<Rightarrow> r)"

text \<open>The limits of the claim, as the code tests them.\<close>

definition violatesPositionSize :: "risk_env \<Rightarrow> jsnum \<Rightarrow> jsnum \<Rightarrow> limits \<Rightarrow> bool" where
  "violatesPositionSize env quantity price lims =
     (case balanceForSize env of
        Inr (Some b) \<Rightarrow> bal_total b \<noteq> Fin 0
          \<and> jgt (positionPercent quantity price b) (maxPositionSizePercent lims)
      | _ \<Rightarrow> False)"

definition violatesConcurrent :: "risk_env \<Rightarrow> limits \<Rightarrow> bool" where
  "violatesConcurrent env lims =
     (case openForCount env of
        Inr openPositions \<Rightarrow>
          jge (Fin (real (length openPositions))) (maxConcurrentPositions lims)
      | _ \<Rightarrow> False)"

definition violatesDailyLoss :: "risk_env \<Rightarrow> limits \<Rightarrow> bool" where
  "violatesDailyLoss env lims =
     (case (todayTrades env, balanceForLoss env) of
        (Inr ts, Inr (Some b)) \<Rightarrow> bal_total b \<noteq> Fin 0
          \<and> jge (lossPercent ts b) (dailyLossLimitPercent lims)
      | _ \<Rightarrow> False)"

definition positionSizeReason :: "risk_env \<Rightarrow> jsnum \<Rightarrow> jsnum \<Rightarrow> limits \<Rightarrow> reason" where
  "positionSizeReason env quantity price lims =
     (case balanceForSize env of
        Inr (Some b) \<Rightarrow>
          PositionSizeExceeds (positionPercent quantity price b) (maxPositionSizePercent lims)
      | _ \<Rightarrow> InsufficientBalance)"

text \<open>A check passes when it returns (does not throw) and allows.\<close>

definition passes :: "error + risk_check_result \<Rightarrow> bool" where
  "passes c = (case c of Inr r \<Rightarrow> allowed r | Inl _ \<Rightarrow> False)"

text \<open>A concrete request: 2 units at 100 against a balance of 1000, one position open.\<close>

definition exampleLimits :: limits where
  "exampleLimits = \<lparr> maxPositionSizePercent = Fin 10, stopLossPercent = Fin (5/2),
     takeProfitPercent = Fin 5, dailyLossLimitPercent = Fin 5, maxConcurrentPositions = Fin 1 \<rparr>"

definition examplePosition :: position where
  "examplePosition = \<lparr> pos_id = ''p1'', pos_strategyId = ''s1'', pos_symbol = ''ETHUSDT'',
     pos_quantity = Fin 1, pos_entryPrice = Fin 100, pos_currentPrice = None,
     pos_stopLoss = Some (Fin 95), pos_takeProfit = Some (Fin 110), pos_unrealizedPnl = None,
     pos_unrealizedPnlPercent = None, pos_closedAt = None, pos_isOpen = True \<rparr>"

definition exampleRiskEnv :: risk_env where
  "exampleRiskEnv = \<lparr> limitsQuery = (\<lambda>u. Inr None),
     balanceForSize =
       Inr (Some \<lparr> bal_free = Fin 1000, bal_locked = Fin 0, bal_total = Fin 1000 \<rparr>),
     openForCount = Inr [examplePosition],
     todayTrades = Inr [],
     balanceForLoss =
       Inr (Some \<lparr> bal_free = Fin 1000, bal_locked = Fin 0, bal_total = Fin 1000 \<rparr>),
     openForCorrelation = Inr [examplePosition] \<rparr>"

section \<open>Strategy lifecycle (baseStrategy.ts)\<close>

text \<open>
  The part of a strategy instance that \<open>start\<close> touches: the instance's \<open>isActive\<close> flag,
  the \<open>is_active\<close> column of its row in \<open>strategies\<close>, and the calls made so far to the
  abstract \<open>initialize\<close> and to the private \<open>updateStrategyStatus\<close>.
\<close>

datatype lifecycle_call = Initialize | UpdateStrategyStatus bool

record strategy_instance =
  isActive :: bool
  persistedActive :: bool
  calls :: "lifecycle_call list"

text \<open>
  \<open>initialize\<close> is abstract and the status update is a storage write: whether each returns
  or throws is given from outside.
\<close>

record lifecycle_env =
  initializeOutcome :: "error + unit"
  updateOutcome :: "error + unit"

definition updateStrategyStatus ::
  "lifecycle_env \<Rightarrow> bool \<Rightarrow> strategy_instance \<Rightarrow> (error + unit) \<times> strategy_instance" where
  "updateStrategyStatus env b s =
     (case updateOutcome env of
        Inl e \<Rightarrow> (Inl e, s\<lparr> calls := calls s @ [UpdateStrategyStatus b] \<rparr>)
      | Inr u \<Rightarrow> (Inr (),
          s\<lparr> persistedActive := b, calls := calls s @ [UpdateStrategyStatus b] \<rparr>))"

definition start :: "lifecycle_env \<Rightarrow> strategy_instance \<Rightarrow> (error + unit) \<times> strategy_instance" where
  "start env s =
     (if isActive s then (Inl (Error ''Strategy is already active''), s)
      else
        (case initializeOutcome env of
           Inl e \<Rightarrow> (Inl e, s\<lparr> calls := calls s @ [Initialize] \<rparr>)
         | Inr u \<Rightarrow>
             updateStrategyStatus env True
               (s\<lparr> calls := calls s @ [Initialize], isActive := True \<rparr>)))"

definition stop :: "lifecycle_env \<Rightarrow> strategy_instance \<Rightarrow> (error + unit) \<times> strategy_instance" where
  "stop env s = updateStrategyStatus env False (s\<lparr> isActive := False \<rparr>)"

definition runningInstance :: strategy_instance where
  "runningInstance = \<lparr> isActive = True, persistedActive = True,
     calls = [Initialize, UpdateStrategyStatus True] \<rparr>"

definition quietEnv :: lifecycle_env where
  "quietEnv = \<lparr> initializeOutcome = Inr (), updateOutcome = Inr () \<rparr>"

section \<open>Backtest window (dataProvider.ts, backtestEngine.ts)\<close>

record kline =
  k_open :: jsnum
  k_high :: jsnum
  k_low :: jsnum
  k_close :: jsnum
  k_volume :: jsnum
  k_timestamp :: int

text \<open>
  A \<open>Date\<close> is its time value in milliseconds (\<open>getTime()\<close>); the dates of a config are
  valid dates. \<open>now\<close> is the value of \<open>new Date()\<close> at the call.
\<close>

record validation =
  valid :: bool
  error :: "string option"

definition validateDateRange :: "int \<Rightarrow> int \<Rightarrow> int \<Rightarrow> validation" where
  "validateDateRange startDate endDate now =
     (if startDate \<ge> endDate
      then \<lparr> valid = False, error = Some ''Start date must be before end date'' \<rparr>
      else if real_of_int (endDate - startDate) / (1000 * 60 * 60 * 24) > 365
      then \<lparr> valid = False, error = Some ''Date range cannot exceed 365 days'' \<rparr>
      else if endDate > now
      then \<lparr> valid = False, error = Some ''End date cannot be in the future'' \<rparr>
      else \<lparr> valid = True, error = None \<rparr>)"

record 'c backtest_config =
  cfg_strategyType :: string
  cfg_symbol :: string
  cfg_startDate :: int
  cfg_endDate :: int
  cfg_initialBalance :: jsnum
  cfg_strategyConfig :: 'c
  cfg_interval :: "string option"

record metrics =
  m_totalReturn :: jsnum
  m_totalReturnPercent :: jsnum
  m_sharpeRatio :: jsnum
  m_maxDrawdown :: jsnum
  m_maxDrawdownPercent :: jsnum
  m_winRate :: jsnum
  m_totalTrades :: nat
  m_winningTrades :: nat
  m_losingTrades :: nat

record ('c, 't) backtest_result =
  res_id :: "string option"
  res_config :: "'c backtest_config"
  res_finalBalance :: jsnum
  res_metrics :: metrics
  res_trades :: "'t list"
  res_equityCurve :: "(int \<times> jsnum) list"

text \<open>
  The stages that follow the validation, each as the collaborator it calls: the candle
  fetch of the data provider, the simulator, the analyzer and the insert into
  \<open>backtest_results\<close>. The fetch and the insert can throw.
\<close>

record ('c, 't) backtest_env =
  getHistoricalData :: "string \<Rightarrow> string \<Rightarrow> int \<Rightarrow> int \<Rightarrow> error + kline list"
  simulateTrading :: "kline list \<Rightarrow> string \<Rightarrow> 'c \<Rightarrow> jsnum \<Rightarrow> 't list"
  calculateMetrics :: "jsnum \<Rightarrow> 't list \<Rightarrow> metrics"
  generateEquityCurve :: "jsnum \<Rightarrow> 't list \<Rightarrow> (int \<times> jsnum) list"
  saveBacktestResult :: "('c, 't) backtest_result \<Rightarrow> error + string"

text \<open>What a run did to the outside, in order.\<close>

datatype backtest_effect =
    FetchedCandles string string int int
  | Simulated
  | Persisted

definition runBacktest ::
  "('c, 't) backtest_env \<Rightarrow> int \<Rightarrow> 'c backtest_config
     \<Rightarrow> (error + ('c, 't) backtest_result) \<times> backtest_effect list" where
  "runBacktest env now config =
     (let validation = validateDateRange (cfg_startDate config) (cfg_endDate config) now in
      if \<not> valid validation
      then (Inl (Error (case error validation of Some msg \<Rightarrow> msg | None \<Rightarrow> [])), [])
      else
        let interval = (case cfg_interval config of
                          None \<Rightarrow> ''1h''
                        | Some i \<Rightarrow> if i = [] then ''1h'' else i);
            fetch = FetchedCandles (cfg_symbol config) interval
                      (cfg_startDate config) (cfg_endDate config)
        in case getHistoricalData env (cfg_symbol config) interval
                  (cfg_startDate config) (cfg_endDate config) of
             Inl e \<Rightarrow> (Inl e, [fetch])
           | Inr klines \<Rightarrow>
               let trades = simulateTrading env klines (cfg_strategyType config)
                              (cfg_strategyConfig config) (cfg_initialBalance config);
                   ms = calculateMetrics env (cfg_initialBalance config) trades;
                   equityCurve = generateEquityCurve env (cfg_initialBalance config) trades;
                   result = \<lparr> res_id = None, res_config = config,
                              res_finalBalance =
                                jadd (cfg_initialBalance config) (m_totalReturn ms),
                              res_metrics = ms, res_trades = trades,
                              res_equityCurve = equityCurve \<rparr>
               in case saveBacktestResult env result of
                    Inl e \<Rightarrow> (Inl e, [fetch, Simulated])
                  | Inr new_id \<Rightarrow>
                      (Inr (result\<lparr> res_id := Some new_id \<rparr>), [fetch, Simulated, Persisted]))"

text \<open>The span of a window in days, as \<open>validateDateRange\<close> computes it.\<close>

definition daysDiff :: "'c backtest_config \<Rightarrow> real" where
  "daysDiff config =
     real_of_int (cfg_endDate config - cfg_startDate config) / (1000 * 60 * 60 * 24)"

definition exampleWindow :: "int \<Rightarrow> int \<Rightarrow> unit backtest_config" where
  "exampleWindow s e = \<lparr> cfg_strategyType = ''momentum'', cfg_symbol = ''BTCUSDT'',
     cfg_startDate = s, cfg_endDate = e, cfg_initialBalance = Fin 1000,
     cfg_strategyConfig = (), cfg_interval = None \<rparr>"

definition idleBacktestEnv :: "(unit, unit) backtest_env" where
  "idleBacktestEnv = \<lparr> getHistoricalData = (\<lambda>symbol interval s e. Inr []),
     simulateTrading = (\<lambda>klines strategyType c b. []),
     calculateMetrics = (\<lambda>b ts. \<lparr> m_totalReturn = Fin 0, m_totalReturnPercent = Fin 0,
        m_sharpeRatio = Fin 0, m_maxDrawdown = Fin 0, m_maxDrawdownPercent = Fin 0,
        m_winRate = Fin 0, m_totalTrades = 0, m_winningTrades = 0, m_losingTrades = 0 \<rparr>),
     generateEquityCurve = (\<lambda>b ts. []),
     saveBacktestResult = (\<lambda>r. Inr ''r1'') \<rparr>"

section \<open>Strategy manager (strategyManager)\<close>

record strategy_result =
  success :: bool
  message :: "string option"

text \<open>
  A loaded strategy, as the manager sees it: its id and name, its active flag, and what
  \<open>execute\<close> does when called with the tick's pair: return a result or throw. A strategy's
  \<open>execute\<close> works on its own positions and trades, not on the other instances.
\<close>

record 'p strategy =
  str_id :: string
  str_name :: string
  str_isActive :: bool
  str_execute :: "'p option \<Rightarrow> error + strategy_result"

datatype manager_event =
    StrategyExecuted string strategy_result
  | StrategyError string error

text \<open>
  \<open>activeStrategies\<close> is a \<open>Map\<close> from strategy id to instance; it is kept as the list of
  its entries in insertion order, and \<open>get\<close> is \<open>map_of\<close>.
\<close>

type_synonym 'p registry = "(string \<times> 'p strategy) list"

definition executeStrategy ::
  "'p registry \<Rightarrow> string \<Rightarrow> 'p option \<Rightarrow> manager_event list
     \<Rightarrow> (error + unit) \<times> manager_event list" where
  "executeStrategy activeStrategies strategyId pair events =
     (case map_of activeStrategies strategyId of
        None \<Rightarrow> (Inr (), events)
      | Some strategy \<Rightarrow>
          if \<not> str_isActive strategy then (Inr (), events)
          else
            (case str_execute strategy pair of
               Inr result \<Rightarrow> (Inr (), events @ [StrategyExecuted strategyId result])
             | Inl e \<Rightarrow> (Inl e, events @ [StrategyError strategyId e])))"

text \<open>The body of the loop over the active strategies, with its \<open>try\<close>/\<open>catch\<close>.\<close>

definition executeOne ::
  "'p registry \<Rightarrow> 'p option \<Rightarrow> 'p list \<Rightarrow> manager_event list \<Rightarrow> 'p strategy
     \<Rightarrow> manager_event list" where
  "executeOne activeStrategies pair bestPairs events strategy =
     (let executionPair =
            (case pair of
               Some p \<Rightarrow> Some p
             | None \<Rightarrow> (case bestPairs of [] \<Rightarrow> None | best # rest \<Rightarrow> Some best))
      in case executeStrategy activeStrategies (str_id strategy) executionPair events of
           (Inr u, events') \<Rightarrow> events'
         | (Inl e, events') \<Rightarrow> events' @ [StrategyError (str_id strategy) e])"

text \<open>
  \<open>executeAll\<close>: \<open>getBestPairs\<close> is what the pair selector answers (or throws) when it is
  asked for the top pairs. The result is the outcome of the call and the events emitted.
\<close>

definition executeAll ::
  "'p registry \<Rightarrow> (error + 'p list) \<Rightarrow> 'p option \<Rightarrow> (error + unit) \<times> manager_event list" where
  "executeAll activeStrategies getBestPairs pair =
     (let active = filter str_isActive (map snd activeStrategies) in
      if active = [] then (Inr (), [])
      else
        let bestPairs =
              (case pair of
                 Some p \<Rightarrow> []
               | None \<Rightarrow> (case getBestPairs of Inl e \<Rightarrow> [] | Inr ps \<Rightarrow> ps))
        in (Inr (), foldl (executeOne activeStrategies pair bestPairs) [] active))"

text \<open>The pair one tick hands to every strategy.\<close>

definition tickPair :: "(error + 'p list) \<Rightarrow> 'p option \<Rightarrow> 'p option" where
  "tickPair getBestPairs pair =
     (case pair of
        Some p \<Rightarrow> Some p
      | None \<Rightarrow> (case getBestPairs of
                   Inr (best # rest) \<Rightarrow> Some best
                 | _ \<Rightarrow> None))"

text \<open>
  The invariant of the \<open>Map\<close>: one entry per key, and each instance is stored under its
  own id (\<open>loadStrategy\<close> constructs the instance with the key).
\<close>

definition wellKeyed :: "'p registry \<Rightarrow> bool" where
  "wellKeyed activeStrategies =
     (distinct (map fst activeStrategies)
      \<and> list_all (\<lambda>(k, s). str_id s = k) activeStrategies)"

text \<open>What one invocation of a strategy leaves in the event log.\<close>

definition invocationEvent :: "'p strategy \<Rightarrow> 'p option \<Rightarrow> manager_event" where
  "invocationEvent s pair =
     (case str_execute s pair of
        Inr result \<Rightarrow> StrategyExecuted (str_id s) result
      | Inl e \<Rightarrow> StrategyError (str_id s) e)"

definition failingStrategy :: "string strategy" where
  "failingStrategy = \<lparr> str_id = ''a'', str_name = ''grid'', str_isActive = True,
     str_execute = (\<lambda>p. Inl (Error ''boom'')) \<rparr>"

definition workingStrategy :: "string strategy" where
  "workingStrategy = \<lparr> str_id = ''b'', str_name = ''dca'', str_isActive = True,
     str_execute = (\<lambda>p. Inr \<lparr> success = True, message = None \<rparr>) \<rparr>"

section \<open>Trailing stop (momentumStrategy.ts)\<close>


definition currentStopLoss :: "jsnum option \<Rightarrow> jsnum" where
  "currentStopLoss stopLoss = (case stopLoss of None \<Rightarrow> Fin 0 | Some s \<Rightarrow> s)"




text \<open>
  One stored stop is not below another: the column is unchanged, or the stop price (as
  the code reads the column) went strictly up.
\<close>

definition notLowered :: "jsnum option \<Rightarrow> jsnum option \<Rightarrow> bool" where
  "notLowered before after =
     (after = before \<or> jlt (currentStopLoss before) (currentStopLoss after))"



section \<open>Order reconciliation (orderUtils.ts)\<close>

record fill =
  f_price :: jsnum
  f_qty :: jsnum
  f_commission :: jsnum
  f_commissionAsset :: string

text \<open>
  \<open>ExecutedLike\<close>: every field is optional. \<open>price\<close> and \<open>executedQty\<close> are numbers or
  strings; the model keeps what \<open>Number(...)\<close> makes of them.
\<close>

record executed_like =
  ex_price :: "jsnum option"
  ex_executedQty :: "jsnum option"
  ex_fills :: "fill list option"
  ex_orderId :: "int option"
  ex_symbol :: "string option"

record executed =
  e_price :: jsnum
  e_qty :: jsnum

text \<open>The two tests of the source: \<open>isFinite(x) && x > 0\<close> and \<open>!isFinite(x) || x <= 0\<close>.\<close>

definition validNum :: "jsnum \<Rightarrow> bool" where
  "validNum x = (isFinite x \<and> jgt x (Fin 0))"

definition invalidNum :: "jsnum \<Rightarrow> bool" where
  "invalidNum x = (\<not> isFinite x \<or> jle x (Fin 0))"

definition totalValue :: "fill list \<Rightarrow> jsnum" where
  "totalValue fills = foldl (\<lambda>sum f. jadd sum (jmul (f_price f) (f_qty f))) (Fin 0) fills"

definition totalQty :: "fill list \<Rightarrow> jsnum" where
  "totalQty fills = foldl (\<lambda>sum f. jadd sum (f_qty f)) (Fin 0) fills"

text \<open>Price and quantity after the block that reads the fills.\<close>

definition fromFills :: "executed_like \<Rightarrow> jsnum \<times> jsnum" where
  "fromFills result =
     (case ex_fills result of
        None \<Rightarrow> (Fin 0, Fin 0)
      | Some fills \<Rightarrow>
          if fills \<noteq> [] \<and> jgt (totalQty fills) (Fin 0)
          then (jdiv (totalValue fills) (totalQty fills), totalQty fills)
          else (Fin 0, Fin 0))"

definition extractExecutedFromResult :: "executed_like \<Rightarrow> executed" where
  "extractExecutedFromResult result =
     (let (price0, qty0) = fromFills result;
          price = (if invalidNum price0
                   then (case ex_price result of
                           None \<Rightarrow> price0
                         | Some p \<Rightarrow> if validNum p then p else price0)
                   else price0);
          qty = (if invalidNum qty0
                 then (case ex_executedQty result of
                         None \<Rightarrow> qty0
                       | Some q \<Rightarrow> if validNum q then q else qty0)
                 else qty0)
      in \<lparr> e_price = price, e_qty = qty \<rparr>)"

text \<open>
  The answer of the exchange to an order query. Its quantities are decimal strings;
  \<open>None\<close> is a missing or empty field, \<open>Some v\<close> the \<open>Number\<close> of the string.
\<close>

record exchange_order =
  o_executedQty :: "jsnum option"
  o_cummulativeQuoteQty :: "jsnum option"

text \<open>\<open>a || b\<close> on two numbers.\<close>

definition num_or :: "jsnum \<Rightarrow> jsnum \<Rightarrow> jsnum" where
  "num_or a b = (if truthy a then a else b)"

definition localFallback :: "executed \<Rightarrow> executed" where
  "localFallback ex = \<lparr> e_price = num_or (e_price ex) (Fin 0), e_qty = num_or (e_qty ex) (Fin 0) \<rparr>"

text \<open>
  \<open>resolveExecutedFromExchange\<close>: the result, and the order queries sent to the exchange
  on the way (symbol and order id of each).
\<close>

definition resolveExecutedFromExchange ::
  "(string \<Rightarrow> int \<Rightarrow> error + exchange_order) \<Rightarrow> executed_like
     \<Rightarrow> executed \<times> (string \<times> int) list" where
  "resolveExecutedFromExchange getOrderStatus result =
     (let ex = extractExecutedFromResult result in
      if validNum (e_price ex) \<and> validNum (e_qty ex) then (ex, [])
      else
        (case (ex_symbol result, ex_orderId result) of
           (Some symbol, Some orderId) \<Rightarrow>
             if symbol = [] \<or> orderId = 0 then (localFallback ex, [])
             else
               (case getOrderStatus symbol orderId of
                  Inl e \<Rightarrow> (localFallback ex, [(symbol, orderId)])
                | Inr order \<Rightarrow>
                    let executedQty = (case o_executedQty order of None \<Rightarrow> Fin 0 | Some q \<Rightarrow> q);
                        executedPrice =
                          (if jgt executedQty (Fin 0)
                           then (let cqq = (case o_cummulativeQuoteQty order of
                                              None \<Rightarrow> Fin 0 | Some c \<Rightarrow> c)
                                 in if validNum cqq then jdiv cqq executedQty else Fin 0)
                           else Fin 0)
                    in (\<lparr> e_price = num_or (num_or executedPrice (e_price ex)) (Fin 0),
                          e_qty = num_or (num_or executedQty (e_qty ex)) (Fin 0) \<rparr>,
                        [(symbol, orderId)]))
         | _ \<Rightarrow> (localFallback ex, [])))"

text \<open>Whether the fills alone give a usable price.\<close>

definition fillsGivePrice :: "executed_like \<Rightarrow> bool" where
  "fillsGivePrice result = validNum (fst (fromFills result))"

text \<open>The order of the spec's example: two fills, 1 at 100 and 1 at 102.\<close>

definition twoFills :: executed_like where
  "twoFills = \<lparr> ex_price = Some (Fin 0), ex_executedQty = Some (Fin 2),
     ex_fills = Some [\<lparr> f_price = Fin 100, f_qty = Fin 1, f_commission = Fin 0,
                        f_commissionAsset = ''USDT'' \<rparr>,
                      \<lparr> f_price = Fin 102, f_qty = Fin 1, f_commission = Fin 0,
                        f_commissionAsset = ''USDT'' \<rparr>],
     ex_orderId = Some 7, ex_symbol = Some ''BTCUSDT'' \<rparr>"

text \<open>An order without fills and without a price, and an exchange that knows it.\<close>

definition bareOrder :: executed_like where
  "bareOrder = \<lparr> ex_price = Some (Fin 0), ex_executedQty = None, ex_fills = Some [],
     ex_orderId = Some 7, ex_symbol = Some ''BTCUSDT'' \<rparr>"

definition knownOrder :: "string \<Rightarrow> int \<Rightarrow> error + exchange_order" where
  "knownOrder symbol orderId =
     Inr \<lparr> o_executedQty = Some (Fin 2), o_cummulativeQuoteQty = Some (Fin 202) \<rparr>"

definition priceOnly :: executed_like where
  "priceOnly = \<lparr> ex_price = Some (Fin 100), ex_executedQty = Some (Fin 2), ex_fills = None,
     ex_orderId = Some 7, ex_symbol = Some ''BTCUSDT'' \<rparr>"

text \<open>
  To state what the fills add up to: the value of a finite number, and fills whose prices
  and quantities are all finite.
\<close>

definition realOf :: "jsnum \<Rightarrow> real" where
  "realOf x = (case x of Fin a \<Rightarrow> a | _ \<Rightarrow> 0)"

definition finiteFills :: "fill list \<Rightarrow> bool" where
  "finiteFills fills = list_all (\<lambda>f. isFinite (f_price f) \<and> isFinite (f_qty f)) fills"

text \<open>Fills of unequal size: 1 at 100 and 3 at 200.\<close>

definition unevenFills :: executed_like where
  "unevenFills = \<lparr> ex_price = Some (Fin 0), ex_executedQty = Some (Fin 4),
     ex_fills = Some [\<lparr> f_price = Fin 100, f_qty = Fin 1, f_commission = Fin 0,
                        f_commissionAsset = ''USDT'' \<rparr>,
                      \<lparr> f_price = Fin 200, f_qty = Fin 3, f_commission = Fin 0,
                        f_commissionAsset = ''USDT'' \<rparr>],
     ex_orderId = Some 7, ex_symbol = Some ''BTCUSDT'' \<rparr>"

text \<open>An order that reports a price of 100 and no executed quantity, without fills.\<close>

definition reportedPriceNoQty :: executed_like where
  "reportedPriceNoQty = \<lparr> ex_price = Some (Fin 100), ex_executedQty = Some (Fin 0),
     ex_fills = None, ex_orderId = Some 7, ex_symbol = Some ''BTCUSDT'' \<rparr>"

text \<open>An exchange whose order query fails.\<close>

definition failingQuery :: "string \<Rightarrow> int \<Rightarrow> error + exchange_order" where
  "failingQuery symbol orderId = Inl (Error ''timeout'')"

section \<open>Stop-loss / take-profit monitor (stopLossManager)\<close>

datatype order_type = MARKET | LIMIT

text \<open>
  A row of the \<open>trades\<close> table. \<open>'d\<close> is what a decimal column receives: the monitor
  writes \<open>x.toString()\<close> of a number (kept here as the number), \<open>saveTrade\<close> writes the
  string its formatter returns.
\<close>

record 'd trade_row =
  tr_positionId :: "string option"
  tr_strategyId :: string
  tr_symbol :: string
  tr_side :: side
  tr_orderType :: order_type
  tr_quantity :: 'd
  tr_price :: 'd
  tr_fee :: 'd
  tr_feeAsset :: string
  tr_pnl :: 'd
  tr_pnlPercent :: 'd
  tr_binanceOrderId :: "string option"
  tr_status :: string

record order_result =
  or_orderId :: int
  or_symbol :: string
  or_price :: jsnum
  or_executedQty :: jsnum
  or_fills :: "fill list"

record monitor_db =
  db_positions :: "position list"
  db_trades :: "jsnum trade_row list"

text \<open>The exchange, as the monitor uses it; each call returns or throws.\<close>

record exchange =
  x_getPrice :: "string \<Rightarrow> error + jsnum"
  x_marketSell :: "string \<Rightarrow> jsnum \<Rightarrow> error + order_result"
  x_getOrderStatus :: "string \<Rightarrow> int \<Rightarrow> error + exchange_order"

definition asExecutedLike :: "order_result \<Rightarrow> executed_like" where
  "asExecutedLike r = \<lparr> ex_price = Some (or_price r), ex_executedQty = Some (or_executedQty r),
     ex_fills = Some (or_fills r), ex_orderId = Some (or_orderId r),
     ex_symbol = Some (or_symbol r) \<rparr>"

text \<open>The executed price of a market sell, with the fallback to the exchange.\<close>

definition executedPriceOf :: "exchange \<Rightarrow> position \<Rightarrow> order_result \<Rightarrow> jsnum" where
  "executedPriceOf ex position r =
     (let executedPrice = e_price (extractExecutedFromResult (asExecutedLike r)) in
      if \<not> isFinite executedPrice \<or> jle executedPrice (Fin 0)
      then e_price (fst (resolveExecutedFromExchange (x_getOrderStatus ex)
             \<lparr> ex_price = Some executedPrice, ex_executedQty = None, ex_fills = None,
               ex_orderId = Some (or_orderId r), ex_symbol = Some (pos_symbol position) \<rparr>))
      else executedPrice)"

definition feeOf :: "order_result \<Rightarrow> jsnum" where
  "feeOf r = foldl (\<lambda>sum f. jadd sum (f_commission f)) (Fin 0) (or_fills r)"

definition feeAssetOf :: "position \<Rightarrow> order_result \<Rightarrow> string" where
  "feeAssetOf position r =
     (case or_fills r of
        [] \<Rightarrow> remove_first ''USDT'' (pos_symbol position)
      | f # fs \<Rightarrow> if f_commissionAsset f = [] then remove_first ''USDT'' (pos_symbol position)
                  else f_commissionAsset f)"

text \<open>The update both exits end with: the rows with this id are closed.\<close>

definition closeRows :: "int \<Rightarrow> jsnum \<Rightarrow> string \<Rightarrow> position list \<Rightarrow> position list" where
  "closeRows now executedPrice positionId ps =
     map (\<lambda>p. if pos_id p = positionId
               then p\<lparr> pos_isOpen := False, pos_closedAt := Some now,
                       pos_currentPrice := Some executedPrice,
                       pos_unrealizedPnl := Some (Fin 0),
                       pos_unrealizedPnlPercent := Some (Fin 0) \<rparr>
               else p) ps"

definition executeStopLoss ::
  "exchange \<Rightarrow> int \<Rightarrow> monitor_db \<Rightarrow> string \<Rightarrow> (error + unit) \<times> monitor_db" where
  "executeStopLoss ex now db positionId =
     (case find (\<lambda>p. pos_id p = positionId) (db_positions db) of
        None \<Rightarrow> (Inr (), db)
      | Some position \<Rightarrow>
          if \<not> pos_isOpen position then (Inr (), db)
          else
            let quantity = pos_quantity position in
            case x_marketSell ex (pos_symbol position) quantity of
              Inl e \<Rightarrow> (Inl e, db)
            | Inr result \<Rightarrow>
                let executedPrice = executedPriceOf ex position result;
                    entryPrice = pos_entryPrice position;
                    pnl = jmul (jsub executedPrice entryPrice) quantity;
                    pnlPercent = jmul (jdiv (jsub executedPrice entryPrice) entryPrice) (Fin 100);
                    fee = feeOf result;
                    feeAsset = feeAssetOf position result;
                    trade = \<lparr> tr_positionId = Some (pos_id position),
                              tr_strategyId = pos_strategyId position,
                              tr_symbol = pos_symbol position,
                              tr_side = SELL, tr_orderType = MARKET,
                              tr_quantity = quantity, tr_price = executedPrice,
                              tr_fee = fee, tr_feeAsset = feeAsset,
                              tr_pnl = jsub pnl fee, tr_pnlPercent = pnlPercent,
                              tr_binanceOrderId = Some (int_toString (or_orderId result)),
                              tr_status = ''FILLED'' \<rparr>
                in (Inr (),
                    \<lparr> db_positions = closeRows now executedPrice positionId (db_positions db),
                      db_trades = db_trades db @ [trade] \<rparr>))"

definition executeTakeProfit ::
  "exchange \<Rightarrow> int \<Rightarrow> monitor_db \<Rightarrow> string \<Rightarrow> (error + unit) \<times> monitor_db" where
  "executeTakeProfit ex now db positionId =
     (case find (\<lambda>p. pos_id p = positionId) (db_positions db) of
        None \<Rightarrow> (Inr (), db)
      | Some position \<Rightarrow>
          if \<not> pos_isOpen position then (Inr (), db)
          else
            let quantity = pos_quantity position in
            case x_marketSell ex (pos_symbol position) quantity of
              Inl e \<Rightarrow> (Inl e, db)
            | Inr result \<Rightarrow>
                let executedPrice = executedPriceOf ex position result
                in (Inr (),
                    db\<lparr> db_positions :=
                          closeRows now executedPrice positionId (db_positions db) \<rparr>))"

text \<open>The refresh of a position that breaches nothing.\<close>

definition refreshRows :: "jsnum \<Rightarrow> position \<Rightarrow> position list \<Rightarrow> position list" where
  "refreshRows currentPrice position ps =
     (let entryPrice = pos_entryPrice position;
          pnl = jmul (jsub currentPrice entryPrice) (pos_quantity position);
          pnlPercent = jmul (jdiv (jsub currentPrice entryPrice) entryPrice) (Fin 100)
      in map (\<lambda>p. if pos_id p = pos_id position
                   then p\<lparr> pos_currentPrice := Some currentPrice,
                           pos_unrealizedPnl := Some pnl,
                           pos_unrealizedPnlPercent := Some pnlPercent \<rparr>
                   else p) ps)"

definition breachesStopLoss :: "position \<Rightarrow> jsnum \<Rightarrow> bool" where
  "breachesStopLoss position currentPrice =
     (case pos_stopLoss position of
        None \<Rightarrow> False
      | Some stopLossPrice \<Rightarrow> jle currentPrice stopLossPrice)"

definition breachesTakeProfit :: "position \<Rightarrow> jsnum \<Rightarrow> bool" where
  "breachesTakeProfit position currentPrice =
     (case pos_takeProfit position of
        None \<Rightarrow> False
      | Some takeProfitPrice \<Rightarrow> jge currentPrice takeProfitPrice)"

text \<open>
  The body of the sweep's loop for one position of the snapshot; an exception inside is
  caught and logged, and the loop goes on with the store as it is then.
\<close>

definition sweepOne :: "exchange \<Rightarrow> int \<Rightarrow> monitor_db \<Rightarrow> position \<Rightarrow> monitor_db" where
  "sweepOne ex now db position =
     (case x_getPrice ex (pos_symbol position) of
        Inl e \<Rightarrow> db
      | Inr currentPrice \<Rightarrow>
          if breachesStopLoss position currentPrice
          then snd (executeStopLoss ex now db (pos_id position))
          else if breachesTakeProfit position currentPrice
          then snd (executeTakeProfit ex now db (pos_id position))
          else db\<lparr> db_positions := refreshRows currentPrice position (db_positions db) \<rparr>)"

definition checkAndExecuteStopLosses :: "exchange \<Rightarrow> int \<Rightarrow> monitor_db \<Rightarrow> monitor_db" where
  "checkAndExecuteStopLosses ex now db =
     foldl (sweepOne ex now) db (filter pos_isOpen (db_positions db))"

text \<open>
  One open position (entry 100, quantity 1, stop 95, target 110) and an exchange that
  quotes a price and fills a market sell at it, with a commission of 0.12 USDT.
\<close>

definition oneOpenPosition :: monitor_db where
  "oneOpenPosition = \<lparr> db_positions = [examplePosition], db_trades = [] \<rparr>"

definition fillingAt :: "real \<Rightarrow> exchange" where
  "fillingAt price =
     \<lparr> x_getPrice = (\<lambda>symbol. Inr (Fin price)),
       x_marketSell = (\<lambda>symbol quantity. Inr
          \<lparr> or_orderId = 7, or_symbol = symbol, or_price = Fin 0, or_executedQty = quantity,
            or_fills = [\<lparr> f_price = Fin price, f_qty = quantity, f_commission = Fin (3 / 25),
                          f_commissionAsset = ''USDT'' \<rparr>] \<rparr>),
       x_getOrderStatus = (\<lambda>symbol orderId. Inl (Error ''not found'')) \<rparr>"

section \<open>Decimal strings for storage (orderUtils.ts, baseStrategy.ts)\<close>

text \<open>\<open>Math.round\<close>: the nearest integer, a tie going up.\<close>

fun jround :: "jsnum \<Rightarrow> jsnum" where
  "jround (Fin a) = Fin (of_int \<lfloor>a + 1 / 2\<rfloor>)"
| "jround x = x"

definition is_digit :: "char \<Rightarrow> bool" where
  "is_digit c = (c \<in> set ''0123456789'')"

text \<open>\<open>s.replace(/0+$/, '')\<close> and \<open>s.replace(/\.$/, '')\<close>.\<close>

definition strip_zeros :: "string \<Rightarrow> string" where
  "strip_zeros s = rev (dropWhile (\<lambda>c. c = CHR ''0'') (rev s))"

definition strip_dot :: "string \<Rightarrow> string" where
  "strip_dot s = (if s \<noteq> [] \<and> last s = CHR ''.'' then butlast s else s)"

text \<open>
  \<open>Number.prototype.toFixed\<close> and \<open>Number::toString\<close> are functions of the language's
  library; the model follows their definition in the ECMAScript specification.

  \<open>toFixed(8)\<close> of a finite \<open>x\<close>: with the sign put aside, a value of at least \<open>10^21\<close> is
  printed by \<open>toString\<close>, which at that size is the exponent form; a smaller one is the
  integer \<open>n\<close> nearest to \<open>x * 10^8\<close> (a tie going up), printed with at least nine digits
  and a point before the last eight.

  The exponent form prints the digits of the value without its trailing zeros, a point
  after the first digit if more follow, and \<open>e+\<close> with the decimal exponent. The model
  prints the digits of the exact value; an engine prints the shortest digit string that
  reads back as the same double. Both are in exponent form.
\<close>

definition fixed_digits :: "nat \<Rightarrow> string" where
  "fixed_digits n =
     (let m = digits n;
          m' = (if length m \<le> 8 then replicate (9 - length m) CHR ''0'' @ m else m);
          k = length m'
      in take (k - 8) m' @ CHR ''.'' # drop (k - 8) m')"

definition exponent_form :: "nat \<Rightarrow> string" where
  "exponent_form n =
     (let ds = digits n;
          sig = strip_zeros ds
      in (case sig of
            [] \<Rightarrow> []
          | d # rest \<Rightarrow> (if rest = [] then [d] else d # CHR ''.'' # rest))
         @ ''e+'' @ digits (length ds - 1))"

definition toFixed8 :: "jsnum \<Rightarrow> string" where
  "toFixed8 v =
     (case v of
        NaN \<Rightarrow> ''NaN''
      | PInf \<Rightarrow> ''Infinity''
      | NInf \<Rightarrow> ''-Infinity''
      | Fin x \<Rightarrow>
          (if x < 0 then ''-'' else []) @
          (if \<bar>x\<bar> \<ge> 10 ^ 21 then exponent_form (nat \<lfloor>\<bar>x\<bar>\<rfloor>)
           else fixed_digits (nat \<lfloor>\<bar>x\<bar> * 10 ^ 8 + 1 / 2\<rfloor>)))"

text \<open>\<open>Math.round(value * 1e8) / 1e8\<close>.\<close>

definition round8 :: "jsnum \<Rightarrow> jsnum" where
  "round8 v = jdiv (jround (jmul v (Fin 100000000))) (Fin 100000000)"

definition toDbNumberString :: "jsnum \<Rightarrow> string" where
  "toDbNumberString v =
     (if \<not> isFinite v then ''0''
      else
        let s = toFixed8 (round8 v)
        in if CHR ''.'' \<in> set s then strip_dot (strip_zeros s) else s)"

text \<open>The test \<open>/^-?\d+(\.\d+)?$/\<close>.\<close>

definition is_decimal_string :: "string \<Rightarrow> bool" where
  "is_decimal_string s =
     (let u = (case s of c # r \<Rightarrow> if c = CHR ''-'' then r else s | [] \<Rightarrow> s);
          ipart = takeWhile is_digit u;
          rest = dropWhile is_digit u
      in ipart \<noteq> []
         \<and> (case rest of
               [] \<Rightarrow> True
             | c # fs \<Rightarrow> c = CHR ''.'' \<and> fs \<noteq> [] \<and> list_all is_digit fs))"

text \<open>The test \<open>s.match(/^0+\d/) && !s.startsWith('0.')\<close>.\<close>

definition has_leading_zero :: "string \<Rightarrow> bool" where
  "has_leading_zero s =
     (case s of
        c # d # r \<Rightarrow> c = CHR ''0'' \<and> is_digit d
      | _ \<Rightarrow> False)"

text \<open>
  \<open>formatNumber\<close> of \<open>saveTrade\<close>. Its argument may be \<open>undefined\<close>. \<open>reparse\<close> stands for
  \<open>parseFloat(s).toString()\<close>, the library call the code makes on a string with a
  leading zero.
\<close>

definition formatNumber :: "(string \<Rightarrow> string) \<Rightarrow> jsnum option \<Rightarrow> string" where
  "formatNumber reparse num =
     (case num of
        None \<Rightarrow> ''0''
      | Some v \<Rightarrow>
          if isNaN v then ''0''
          else if \<not> isFinite v then ''0''
          else
            let formatted0 = toFixed8 (round8 v);
                formatted1 = (if CHR ''.'' \<in> set formatted0
                              then strip_dot (strip_zeros formatted0) else formatted0);
                formatted = (if has_leading_zero formatted1 then reparse formatted1
                             else formatted1)
            in if \<not> is_decimal_string formatted
               then strip_dot (strip_zeros (toFixed8 v))
               else formatted)"

section \<open>Saving a trade (baseStrategy.ts)\<close>

record trade_data =
  td_positionId :: "string option"
  td_symbol :: string
  td_side :: side
  td_orderType :: order_type
  td_quantity :: jsnum
  td_price :: jsnum
  td_fee :: jsnum
  td_feeAsset :: string
  td_pnl :: "jsnum option"
  td_pnlPercent :: "jsnum option"
  td_binanceOrderId :: "string option"
  td_status :: string

text \<open>
  \<open>saveTrade\<close> on the \<open>trades\<close> table. \<open>insertOutcome\<close> is whether the storage accepts the
  insert. The thrown message ends with the offending price in the source; the model keeps
  the fixed part.
\<close>

definition saveTrade ::
  "(string \<Rightarrow> string) \<Rightarrow> (error + unit) \<Rightarrow> string \<Rightarrow> string trade_row list \<Rightarrow> trade_data
     \<Rightarrow> (error + unit) \<times> string trade_row list" where
  "saveTrade reparse insertOutcome strategyId trades tradeData =
     (if \<not> truthy (td_price tradeData) \<or> \<not> isFinite (td_price tradeData)
         \<or> jle (td_price tradeData) (Fin 0)
      then (Inl (Error ''Refuse to save trade with non-positive price''), trades)
      else
        (case insertOutcome of
           Inl e \<Rightarrow> (Inl e, trades)
         | Inr u \<Rightarrow>
             (Inr (),
              trades @
              [\<lparr> tr_positionId = td_positionId tradeData,
                 tr_strategyId = strategyId,
                 tr_symbol = td_symbol tradeData,
                 tr_side = td_side tradeData,
                 tr_orderType = td_orderType tradeData,
                 tr_quantity = formatNumber reparse (Some (td_quantity tradeData)),
                 tr_price = formatNumber reparse (Some (td_price tradeData)),
                 tr_fee = formatNumber reparse (Some (td_fee tradeData)),
                 tr_feeAsset = td_feeAsset tradeData,
                 tr_pnl = formatNumber reparse (td_pnl tradeData),
                 tr_pnlPercent = formatNumber reparse (td_pnlPercent tradeData),
                 tr_binanceOrderId = td_binanceOrderId tradeData,
                 tr_status = td_status tradeData \<rparr>])))"

text \<open>A price the ledger accepts: finite and above zero.\<close>

definition positivePrice :: "jsnum \<Rightarrow> bool" where
  "positivePrice p = (case p of Fin a \<Rightarrow> 0 < a | _ \<Rightarrow> False)"

definition exampleTrade :: "jsnum \<Rightarrow> trade_data" where
  "exampleTrade price = \<lparr> td_positionId = Some ''p1'', td_symbol = ''ETHUSDT'', td_side = SELL,
     td_orderType = MARKET, td_quantity = Fin (3 / 2), td_price = price, td_fee = Fin (3 / 25),
     td_feeAsset = ''USDT'', td_pnl = Some (Fin (- (1 / 4))), td_pnlPercent = None,
     td_binanceOrderId = Some ''7'', td_status = ''FILLED'' \<rparr>"

section \<open>Technical indicators (technicalIndicators.ts)\<close>

text \<open>
  Arrays of numbers are lists. A read past the end of an array gives \<open>undefined\<close>, which
  \<open>isNaN\<close>, the arithmetic and the comparisons treat as NaN: \<open>num_at\<close> is such a read.
  \<open>xs.slice(a, b)\<close> with \<open>0 \<le> a \<le> b\<close> is \<open>take (b - a) (drop a xs)\<close>.
\<close>

definition num_at :: "jsnum list \<Rightarrow> nat \<Rightarrow> jsnum" where
  "num_at xs i = (if i < length xs then xs ! i else NaN)"

text \<open>\<open>xs[xs.length - 1]\<close> and \<open>xs[xs.length - 2]\<close>.\<close>

definition last_num :: "jsnum list \<Rightarrow> jsnum" where
  "last_num xs = (if xs = [] then NaN else num_at xs (length xs - 1))"

definition prev_num :: "jsnum list \<Rightarrow> jsnum" where
  "prev_num xs = (if length xs < 2 then NaN else num_at xs (length xs - 2))"

text \<open>\<open>xs.reduce((a, b) => a + b, 0)\<close>.\<close>

definition jsum :: "jsnum list \<Rightarrow> jsnum" where
  "jsum xs = foldl jadd (Fin 0) xs"

text \<open>\<open>Math.pow(x, 2)\<close>.\<close>

definition jpow2 :: "jsnum \<Rightarrow> jsnum" where
  "jpow2 x = jmul x x"

definition calculateSMA :: "jsnum list \<Rightarrow> nat \<Rightarrow> jsnum list" where
  "calculateSMA prices period =
     map (\<lambda>i. if i + 1 < period then NaN
              else jdiv (jsum (take period (drop (i + 1 - period) prices))) (Fin (real period)))
       [0..<length prices]"

definition calculateEMA :: "jsnum list \<Rightarrow> nat \<Rightarrow> jsnum list" where
  "calculateEMA prices period =
     (let multiplier = jdiv (Fin 2) (Fin (real (period + 1)))
      in foldl (\<lambda>ema i. ema @
                 [if i = 0 then num_at prices i
                  else if i < period
                  then jdiv (jsum (take (i + 1) prices)) (Fin (real (i + 1)))
                  else jadd (jmul (jsub (num_at prices i) (num_at ema (i - 1))) multiplier)
                         (num_at ema (i - 1))])
           [] [0..<length prices])"

text \<open>The RSI of one window of price changes.\<close>

definition rsiOf :: "jsnum list \<Rightarrow> nat \<Rightarrow> jsnum" where
  "rsiOf relevantChanges period =
     (let gains = filter (\<lambda>c. jgt c (Fin 0)) relevantChanges;
          losses = map jabs (filter (\<lambda>c. jlt c (Fin 0)) relevantChanges);
          avgGain = (if gains \<noteq> [] then jdiv (jsum gains) (Fin (real period)) else Fin 0);
          avgLoss = (if losses \<noteq> [] then jdiv (jsum losses) (Fin (real period)) else Fin 0)
      in if avgLoss = Fin 0 then Fin 100
         else jsub (Fin 100) (jdiv (Fin 100) (jadd (Fin 1) (jdiv avgGain avgLoss))))"

definition calculateRSI :: "jsnum list \<Rightarrow> nat \<Rightarrow> jsnum list" where
  "calculateRSI prices period =
     (let changes = map (\<lambda>i. jsub (num_at prices i) (num_at prices (i - 1)))
                      [1..<length prices]
      in map (\<lambda>i. if i < period then NaN
                   else rsiOf (take period (drop (i - period) changes)) period)
           [0..<length prices])"

record macd_result =
  macd_line :: "jsnum list"
  macd_signal :: "jsnum list"
  macd_histogram :: "jsnum list"

definition calculateMACD :: "jsnum list \<Rightarrow> nat \<Rightarrow> nat \<Rightarrow> nat \<Rightarrow> macd_result" where
  "calculateMACD prices fastPeriod slowPeriod signalPeriod =
     (let fastEMA = calculateEMA prices fastPeriod;
          slowEMA = calculateEMA prices slowPeriod;
          macd = map (\<lambda>i. if isNaN (num_at fastEMA i) \<or> isNaN (num_at slowEMA i) then NaN
                          else jsub (num_at fastEMA i) (num_at slowEMA i))
                   [0..<length prices];
          signal = calculateEMA (filter (\<lambda>v. \<not> isNaN v) macd) signalPeriod;
          nanCount = length macd - length (filter (\<lambda>v. \<not> isNaN v) macd);
          paddedSignal = replicate nanCount NaN @ signal;
          histogram = map (\<lambda>i. if isNaN (num_at macd i) \<or> isNaN (num_at paddedSignal i)
                               then NaN
                               else jsub (num_at macd i) (num_at paddedSignal i))
                        [0..<length macd]
      in \<lparr> macd_line = macd, macd_signal = paddedSignal, macd_histogram = histogram \<rparr>)"

record bands =
  b_upper :: "jsnum list"
  b_middle :: "jsnum list"
  b_lower :: "jsnum list"

text \<open>The variance of a window around a mean, and the three band values of a window.\<close>

definition varianceOf :: "jsnum list \<Rightarrow> jsnum \<Rightarrow> nat \<Rightarrow> jsnum" where
  "varianceOf slice mean period =
     jdiv (foldl (\<lambda>sum price. jadd sum (jpow2 (jsub price mean))) (Fin 0) slice)
       (Fin (real period))"

definition bandAt :: "jsnum list \<Rightarrow> nat \<Rightarrow> jsnum \<Rightarrow> nat \<Rightarrow> jsnum \<times> jsnum \<times> jsnum" where
  "bandAt prices period stdDev i =
     (if i + 1 < period then (NaN, NaN, NaN)
      else
        let slice = take period (drop (i + 1 - period) prices);
            mean = num_at (calculateSMA prices period) i;
            standardDeviation = jsqrt (varianceOf slice mean period)
        in (jadd mean (jmul standardDeviation stdDev), mean,
            jsub mean (jmul standardDeviation stdDev)))"

definition calculateBollingerBands :: "jsnum list \<Rightarrow> nat \<Rightarrow> jsnum \<Rightarrow> bands" where
  "calculateBollingerBands prices period stdDev =
     \<lparr> b_upper = map (\<lambda>i. fst (bandAt prices period stdDev i)) [0..<length prices],
       b_middle = map (\<lambda>i. fst (snd (bandAt prices period stdDev i))) [0..<length prices],
       b_lower = map (\<lambda>i. snd (snd (bandAt prices period stdDev i))) [0..<length prices] \<rparr>"

text \<open>
  Support and resistance: the loop over \<open>i\<close> keeps the pair (support, resistance); the
  two \<open>every\<close> tests look at the window around \<open>i\<close> and skip its centre.
\<close>

definition isLocalExtreme ::
  "(jsnum \<Rightarrow> jsnum \<Rightarrow> bool) \<Rightarrow> jsnum list \<Rightarrow> nat \<Rightarrow> nat \<Rightarrow> bool" where
  "isLocalExtreme rel values window i =
     list_all (\<lambda>(idx, v). idx = window \<or> rel v (num_at values i))
       (enumerate 0 (take (2 * window + 1) (drop (i - window) values)))"

definition calculateSupportResistance :: "kline list \<Rightarrow> jsnum \<times> jsnum" where
  "calculateSupportResistance klines =
     (let highs = map k_high klines;
          lows = map k_low klines;
          window = length klines div 10
      in foldl (\<lambda>(support, resistance) i.
                  (if isLocalExtreme jge lows window i \<and> jlt (num_at lows i) support
                   then num_at lows i else support,
                   if isLocalExtreme jle highs window i \<and> jgt (num_at highs i) resistance
                   then num_at highs i else resistance))
           (num_at lows 0, num_at highs 0)
           [window..<length highs - window])"

definition getCurrentPrice :: "kline list \<Rightarrow> jsnum" where
  "getCurrentPrice klines = last_num (map k_close klines)"

definition calculateAverageVolume :: "kline list \<Rightarrow> nat \<Rightarrow> jsnum" where
  "calculateAverageVolume klines period =
     (if klines = [] then Fin 0
      else
        let recent = (if period = 0 then klines else drop (length klines - period) klines)
        in jdiv (foldl (\<lambda>acc k. jadd acc (k_volume k)) (Fin 0) recent)
             (Fin (real (length recent))))"

section \<open>Pair scorer (pairScorer.ts)\<close>

record trading_pair =
  tp_symbol :: string
  tp_baseAsset :: string
  tp_quoteAsset :: string
  tp_price :: jsnum
  tp_volume24h :: jsnum
  tp_score :: "jsnum option"

record factors =
  fac_rsi :: jsnum
  fac_macd :: jsnum
  fac_bollinger :: jsnum
  fac_volume :: jsnum
  fac_momentum :: jsnum
  fac_volatility :: jsnum

record pair_score =
  ps_pair :: trading_pair
  ps_score :: jsnum
  ps_factors :: factors

definition scoreRSI :: "jsnum \<Rightarrow> jsnum" where
  "scoreRSI rsi =
     (if isNaN rsi then Fin 50
      else if jlt rsi (Fin 30)
      then jadd (Fin 30) (jmul (jdiv (jsub (Fin 30) rsi) (Fin 30)) (Fin 40))
      else if jgt rsi (Fin 70)
      then jsub (Fin 70) (jmul (jdiv (jsub rsi (Fin 70)) (Fin 30)) (Fin 40))
      else Fin 60)"

definition scoreMACD :: "macd_result \<Rightarrow> jsnum" where
  "scoreMACD macd =
     (let lastMacd = last_num (macd_line macd);
          lastSignal = last_num (macd_signal macd);
          lastHistogram = last_num (macd_histogram macd);
          prevHistogram = prev_num (macd_histogram macd)
      in if isNaN lastMacd \<or> isNaN lastSignal then Fin 50
         else if jgt lastMacd lastSignal \<and> jgt lastHistogram (num_or prevHistogram (Fin 0))
         then Fin 80
         else if jlt lastMacd lastSignal then Fin 30
         else Fin 50)"

definition scoreBollinger :: "jsnum \<Rightarrow> bands \<Rightarrow> jsnum" where
  "scoreBollinger price bs =
     (let lastUpper = last_num (b_upper bs);
          lastMiddle = last_num (b_middle bs);
          lastLower = last_num (b_lower bs)
      in if isNaN lastUpper \<or> isNaN lastLower then Fin 50
         else
           let bandWidth = jsub lastUpper lastLower
           in if bandWidth = Fin 0 then Fin 50
              else
                let distanceFromLower = jdiv (jsub price lastLower) bandWidth
                in if jlt distanceFromLower (Fin (2 / 10))
                   then jsub (Fin 80) (jmul distanceFromLower (Fin 100))
                   else if jgt distanceFromLower (Fin (8 / 10))
                   then jadd (Fin 20) (jmul (jsub (Fin 1) distanceFromLower) (Fin 30))
                   else Fin 50)"

definition scoreVolume :: "jsnum \<Rightarrow> jsnum \<Rightarrow> jsnum" where
  "scoreVolume currentVolume avgVolume =
     (if avgVolume = Fin 0 then Fin 50
      else
        let ratio = jdiv currentVolume avgVolume
        in if jge ratio (Fin 2) then Fin 100
           else if jge ratio (Fin (3 / 2)) then Fin 80
           else if jge ratio (Fin 1) then Fin 60
           else if jge ratio (Fin (1 / 2)) then Fin 40
           else Fin 20)"

definition scoreMomentum :: "jsnum list \<Rightarrow> jsnum list \<Rightarrow> jsnum list \<Rightarrow> jsnum" where
  "scoreMomentum prices sma20 ema50 =
     (let currentPrice = last_num prices;
          lastSma20 = last_num sma20;
          lastEma50 = last_num ema50
      in if isNaN lastSma20 \<or> isNaN lastEma50 then Fin 50
         else
           let score0 = Fin 50;
               score1 = (if jgt currentPrice lastSma20 then jadd score0 (Fin 20) else score0);
               score2 = (if jgt currentPrice lastEma50 then jadd score1 (Fin 20) else score1);
               score3 = (if jgt lastSma20 lastEma50 then jadd score2 (Fin 10) else score2)
           in jmin (Fin 100) score3)"

text \<open>\<open>a === b\<close> on numbers: NaN equals nothing.\<close>

definition strictEq :: "jsnum \<Rightarrow> jsnum \<Rightarrow> bool" where
  "strictEq a b = (a = b \<and> \<not> isNaN a)"

definition scoreVolatility :: "jsnum list \<Rightarrow> jsnum \<Rightarrow> jsnum \<Rightarrow> jsnum \<Rightarrow> jsnum" where
  "scoreVolatility prices support resistance currentPrice =
     (if strictEq resistance support then Fin 50
      else
        let range = jsub resistance support;
            distanceFromSupport = jsub currentPrice support;
            positionInRange = jdiv distanceFromSupport range
        in if jlt positionInRange (Fin (3 / 10)) then Fin 70
           else if jgt positionInRange (Fin (7 / 10)) then Fin 30
           else Fin 60)"

definition zeroScore :: "trading_pair \<Rightarrow> pair_score" where
  "zeroScore pair = \<lparr> ps_pair = pair, ps_score = Fin 0,
     ps_factors = \<lparr> fac_rsi = Fin 0, fac_macd = Fin 0, fac_bollinger = Fin 0,
       fac_volume = Fin 0, fac_momentum = Fin 0, fac_volatility = Fin 0 \<rparr> \<rparr>"

definition scoreFactors :: "kline list \<Rightarrow> factors" where
  "scoreFactors klineData =
     (let prices = map k_close klineData;
          currentPrice = getCurrentPrice klineData;
          rsi = calculateRSI prices 14;
          macd = calculateMACD prices 12 26 9;
          bollinger = calculateBollingerBands prices 20 (Fin 2);
          sma20 = calculateSMA prices 20;
          ema50 = calculateEMA prices 50;
          (support, resistance) = calculateSupportResistance klineData;
          avgVolume = calculateAverageVolume klineData 20;
          currentVolume = last_num (map k_volume klineData)
      in \<lparr> fac_rsi = scoreRSI (last_num rsi),
           fac_macd = scoreMACD macd,
           fac_bollinger = scoreBollinger currentPrice bollinger,
           fac_volume = scoreVolume currentVolume avgVolume,
           fac_momentum = scoreMomentum prices sma20 ema50,
           fac_volatility = scoreVolatility prices support resistance currentPrice \<rparr>)"

definition weightedScore :: "factors \<Rightarrow> jsnum" where
  "weightedScore f =
     jadd (jadd (jadd (jadd (jadd
       (jmul (fac_rsi f) (Fin (15 / 100)))
       (jmul (fac_macd f) (Fin (20 / 100))))
       (jmul (fac_bollinger f) (Fin (15 / 100))))
       (jmul (fac_volume f) (Fin (15 / 100))))
       (jmul (fac_momentum f) (Fin (20 / 100))))
       (jmul (fac_volatility f) (Fin (15 / 100)))"

text \<open>
  \<open>scorePair\<close>: \<open>fetch\<close> is what \<open>getKlines(pair.symbol, '1h', 100)\<close> does, return the
  candles or throw. Nothing else inside the \<open>try\<close> can throw.
\<close>

definition scorePair :: "trading_pair \<Rightarrow> (error + kline list) \<Rightarrow> pair_score" where
  "scorePair pair fetch =
     (case fetch of
        Inl e \<Rightarrow> zeroScore pair
      | Inr klines \<Rightarrow>
          if klines = [] then zeroScore pair
          else
            let fs = scoreFactors klines;
                totalScore = weightedScore fs
            in \<lparr> ps_pair = pair\<lparr> tp_score := Some totalScore \<rparr>,
                 ps_score = totalScore, ps_factors = fs \<rparr>)"

definition examplePair :: trading_pair where
  "examplePair = \<lparr> tp_symbol = ''BTCUSDT'', tp_baseAsset = ''BTC'', tp_quoteAsset = ''USDT'',
     tp_price = Fin 100, tp_volume24h = Fin 1000000, tp_score = None \<rparr>"

definition flatCandle :: "real \<Rightarrow> kline" where
  "flatCandle p = \<lparr> k_open = Fin p, k_high = Fin p, k_low = Fin p, k_close = Fin p,
     k_volume = Fin 10, k_timestamp = 0 \<rparr>"

text \<open>A number that is finite and lies between two bounds.\<close>

definition inRange :: "real \<Rightarrow> real \<Rightarrow> jsnum \<Rightarrow> bool" where
  "inRange lo hi v = (\<exists>s. v = Fin s \<and> lo \<le> s \<and> s \<le> hi)"

text \<open>Infinite or finite and not negative.\<close>

definition nonNegative :: "jsnum \<Rightarrow> bool" where
  "nonNegative v = (v = PInf \<or> (\<exists>a. v = Fin a \<and> 0 \<le> a))"

text \<open>Twenty closing prices: eighteen at 100, then two at 90.\<close>

definition droppingPrices :: "jsnum list" where
  "droppingPrices = map Fin (replicate 18 100 @ [90, 90])"

section \<open>Lookups in a table\<close>

lemma find_holds: "find P xs = Some x \<Longrightarrow> P x"
  by (induction xs) (auto split: if_splits)

lemma find_map_same_id:
  assumes "\<And>p. pos_id (f p) = pos_id p"
  shows "find (\<lambda>p. pos_id p = k) (map f ps) = map_option f (find (\<lambda>p. pos_id p = k) ps)"
  using assms by (induction ps) auto

section \<open>The order of the risk checks\<close>

text \<open>
  Claim C1. \<open>checkTradeRisk\<close> runs its checks in a fixed order and stops at the first
  denial: a request that violates both the position-size limit and the limit on
  concurrent positions is denied with the position-size reason; when the size check
  passes, a violated concurrent-position limit decides; when both pass, a violated
  daily-loss limit decides; and when the first three pass the trade is allowed whatever
  the correlation check finds, since that check never denies.
\<close>

theorem checkTradeRisk_order:
  assumes "getRiskLimits cfg env userId = Inr lims"
  shows
   "(violatesPositionSize env quantity price lims \<and> violatesConcurrent env lims \<longrightarrow>
       checkTradeRisk cfg env userId symbol quantity price sd
         = deny (positionSizeReason env quantity price lims))
  \<and> (passes (checkPositionSize env quantity price lims) \<and> violatesConcurrent env lims \<longrightarrow>
       checkTradeRisk cfg env userId symbol quantity price sd
         = deny (MaxConcurrentReached (maxConcurrentPositions lims)))
  \<and> (passes (checkPositionSize env quantity price lims)
       \<and> passes (checkConcurrentPositions env lims) \<and> violatesDailyLoss env lims \<longrightarrow>
       (\<exists>l. checkTradeRisk cfg env userId symbol quantity price sd
         = deny (DailyLossExceeded (dailyLossLimitPercent lims) l)))
  \<and> (passes (checkPositionSize env quantity price lims)
       \<and> passes (checkConcurrentPositions env lims)
       \<and> passes (checkDailyLossLimit env lims) \<longrightarrow>
       (\<forall>r. checkCorrelation env symbol = Inr r \<longrightarrow>
          allowed r \<and> checkTradeRisk cfg env userId symbol quantity price sd = allow Medium))"
  using assms
  unfolding checkTradeRisk_def checkTradeRisk_body_def passes_def
  apply (intro conjI impI allI)
  subgoal by (auto simp: violatesPositionSize_def positionSizeReason_def checkPositionSize_def
        deny_def split: sum.splits option.splits)
  subgoal by (auto simp: violatesConcurrent_def checkConcurrentPositions_def deny_def
        split: sum.splits option.splits)
  subgoal by (auto simp: violatesDailyLoss_def checkDailyLossLimit_def deny_def
        split: sum.splits option.splits)
  subgoal by (auto simp: checkCorrelation_def allow_def split: sum.splits option.splits if_splits)
  subgoal by (auto simp: checkCorrelation_def allow_def split: sum.splits option.splits if_splits)
  done

theorem checkTradeRisk_order_witness:
  "getRiskLimits exampleLimits exampleRiskEnv ''u1'' = Inr exampleLimits
   \<and> violatesPositionSize exampleRiskEnv (Fin 2) (Fin 100) exampleLimits
   \<and> violatesConcurrent exampleRiskEnv exampleLimits
   \<and> checkTradeRisk exampleLimits exampleRiskEnv ''u1'' ''BTCUSDT'' (Fin 2) (Fin 100) BUY
       = deny (PositionSizeExceeds (Fin 20) (Fin 10))"
proof -
  have l: "getRiskLimits exampleLimits exampleRiskEnv ''u1'' = Inr exampleLimits"
    by (simp add: getRiskLimits_def exampleRiskEnv_def)
  have v1: "violatesPositionSize exampleRiskEnv (Fin 2) (Fin 100) exampleLimits"
    by (simp add: violatesPositionSize_def exampleRiskEnv_def exampleLimits_def
        positionPercent_def jgt_def)
  have v2: "violatesConcurrent exampleRiskEnv exampleLimits"
    by (simp add: violatesConcurrent_def exampleRiskEnv_def exampleLimits_def jge_def)
  have r: "positionSizeReason exampleRiskEnv (Fin 2) (Fin 100) exampleLimits
      = PositionSizeExceeds (Fin 20) (Fin 10)"
    by (simp add: positionSizeReason_def exampleRiskEnv_def exampleLimits_def
        positionPercent_def)
  from checkTradeRisk_order [OF l, of "Fin 2" "Fin 100" "''BTCUSDT''" BUY] v1 v2 r l
  show ?thesis by simp
qed

text \<open>A violated position-size limit alone decides, whatever the later checks would say.\<close>

lemma checkTradeRisk_size_denial:
  "getRiskLimits cfg env userId = Inr lims \<Longrightarrow> violatesPositionSize env quantity price lims \<Longrightarrow>
     checkTradeRisk cfg env userId symbol quantity price sd
       = deny (positionSizeReason env quantity price lims)"
  by (auto simp: checkTradeRisk_def checkTradeRisk_body_def violatesPositionSize_def
      positionSizeReason_def checkPositionSize_def deny_def split: sum.splits option.splits)

section \<open>Starting a strategy that already runs\<close>

text \<open>
  Claim C10. On an instance that is already active, \<open>start\<close> throws
  \<^verbatim>\<open>Strategy is already active\<close> and leaves the instance as it was: \<open>initialize\<close> is not
  called, the active flag and the persisted status are unchanged. Whenever \<open>start\<close>
  changes anything at all, the instance was inactive before the call.
\<close>

theorem start_when_active:
  "(isActive s \<longrightarrow> start env s = (Inl (Error ''Strategy is already active''), s))
   \<and> (snd (start env s) \<noteq> s \<longrightarrow> \<not> isActive s)"
  by (simp add: start_def)

theorem start_when_active_witness:
  "isActive runningInstance
   \<and> start quietEnv runningInstance = (Inl (Error ''Strategy is already active''), runningInstance)
   \<and> calls (snd (start quietEnv runningInstance)) = [Initialize, UpdateStrategyStatus True]"
  using start_when_active [of runningInstance quietEnv]
  by (simp add: runningInstance_def)

text \<open>From the inactive state the same call initialises, activates and persists.\<close>

lemma start_when_inactive:
  "\<not> isActive s \<Longrightarrow> initializeOutcome env = Inr () \<Longrightarrow> updateOutcome env = Inr () \<Longrightarrow>
     start env s = (Inr (), s\<lparr> calls := calls s @ [Initialize, UpdateStrategyStatus True],
                              isActive := True, persistedActive := True \<rparr>)"
  by (simp add: start_def updateStrategyStatus_def)

section \<open>Rejected backtest windows\<close>

text \<open>
  Claim C7. \<open>runBacktest\<close> rejects a config whose end is not after its start, whose
  window spans more than 365 days, or whose end lies in the future. Each of the three
  rejections has its own message, the messages differ from each other, and a rejected
  run has no effect: no candles are fetched, nothing is simulated, nothing is persisted.
\<close>

theorem runBacktest_rejects:
  "(cfg_endDate config \<le> cfg_startDate config \<longrightarrow>
      runBacktest env now config = (Inl (Error ''Start date must be before end date''), []))
   \<and> (cfg_startDate config < cfg_endDate config \<and> daysDiff config > 365 \<longrightarrow>
      runBacktest env now config = (Inl (Error ''Date range cannot exceed 365 days''), []))
   \<and> (cfg_startDate config < cfg_endDate config \<and> daysDiff config \<le> 365
        \<and> now < cfg_endDate config \<longrightarrow>
      runBacktest env now config = (Inl (Error ''End date cannot be in the future''), []))
   \<and> (cfg_endDate config \<le> cfg_startDate config \<or> daysDiff config > 365
        \<or> now < cfg_endDate config \<longrightarrow>
      (\<exists>msg. runBacktest env now config = (Inl (Error msg), [])))
   \<and> distinct [''Start date must be before end date'',
        ''Date range cannot exceed 365 days'', ''End date cannot be in the future'']"
  by (simp add: runBacktest_def validateDateRange_def daysDiff_def Let_def)

theorem runBacktest_rejects_witness:
  "cfg_endDate (exampleWindow 2000 1000) \<le> cfg_startDate (exampleWindow 2000 1000)
   \<and> runBacktest idleBacktestEnv 5000 (exampleWindow 2000 1000)
       = (Inl (Error ''Start date must be before end date''), [])
   \<and> daysDiff (exampleWindow 0 31622400000) > 365
   \<and> runBacktest idleBacktestEnv 40000000000 (exampleWindow 0 31622400000)
       = (Inl (Error ''Date range cannot exceed 365 days''), [])
   \<and> (5000 :: int) < cfg_endDate (exampleWindow 0 86400000)
   \<and> runBacktest idleBacktestEnv 5000 (exampleWindow 0 86400000)
       = (Inl (Error ''End date cannot be in the future''), [])"
  using runBacktest_rejects [of "exampleWindow 2000 1000" idleBacktestEnv 5000]
    runBacktest_rejects [of "exampleWindow 0 31622400000" idleBacktestEnv 40000000000]
    runBacktest_rejects [of "exampleWindow 0 86400000" idleBacktestEnv 5000]
  by (simp add: exampleWindow_def daysDiff_def)

text \<open>A window that passes the three tests reaches the candle fetch.\<close>

lemma runBacktest_accepts:
  "cfg_startDate config < cfg_endDate config \<Longrightarrow> daysDiff config \<le> 365 \<Longrightarrow>
   cfg_endDate config \<le> now \<Longrightarrow> snd (runBacktest env now config) \<noteq> []"
  by (simp add: runBacktest_def validateDateRange_def daysDiff_def Let_def
      split: sum.splits)

section \<open>Failure isolation in the execution loop\<close>

lemma executeOne_events:
  "\<exists>new. executeOne m pair best events s = events @ new"
  by (auto simp: executeOne_def executeStrategy_def Let_def split: option.splits sum.splits list.splits)

lemma foldl_executeOne_mono:
  "set events \<subseteq> set (foldl (executeOne m pair best) events ss)"
proof (induction ss arbitrary: events)
  case Nil then show ?case by simp
next
  case (Cons s ss)
  obtain new where "executeOne m pair best events s = events @ new"
    using executeOne_events by blast
  with Cons.IH [of "executeOne m pair best events s"] show ?case by auto
qed

lemma wellKeyed_lookup:
  "wellKeyed m \<Longrightarrow> s \<in> set (map snd m) \<Longrightarrow> map_of m (str_id s) = Some s"
  by (force simp: wellKeyed_def list_all_iff)

lemma executeOne_invokes:
  assumes "map_of m (str_id s) = Some s" "str_isActive s"
  shows "invocationEvent s (case pair of Some p \<Rightarrow> Some p | None \<Rightarrow> (case best of [] \<Rightarrow> None | b # r \<Rightarrow> Some b))
           \<in> set (executeOne m pair best events s)"
  using assms
  by (auto simp: executeOne_def executeStrategy_def invocationEvent_def Let_def
      split: option.splits sum.splits list.splits)

lemma foldl_executeOne_invokes:
  assumes "\<And>s. s \<in> set ss \<Longrightarrow> map_of m (str_id s) = Some s \<and> str_isActive s"
    and "s \<in> set ss"
  shows "invocationEvent s (case pair of Some p \<Rightarrow> Some p | None \<Rightarrow> (case best of [] \<Rightarrow> None | b # r \<Rightarrow> Some b))
           \<in> set (foldl (executeOne m pair best) events ss)"
  using assms
proof (induction ss arbitrary: events)
  case Nil then show ?case by simp
next
  case (Cons a ss)
  show ?case
  proof (cases "s = a")
    case True
    have "invocationEvent s (case pair of Some p \<Rightarrow> Some p | None \<Rightarrow> (case best of [] \<Rightarrow> None | b # r \<Rightarrow> Some b))
       \<in> set (executeOne m pair best events a)"
      using executeOne_invokes [where m = m and s = s and pair = pair and best = best and events = events]
        Cons.prems(1) [of a] True by simp
    then show ?thesis
      using foldl_executeOne_mono [where events = "executeOne m pair best events a" and m = m
          and pair = pair and best = best and ss = ss] by auto
  next
    case False
    then have "s \<in> set ss" using Cons.prems(2) by simp
    then show ?thesis using Cons.IH [of "executeOne m pair best events a"] Cons.prems(1) by simp
  qed
qed

lemma tickPair_eq:
  "tickPair g pair = (case pair of Some p \<Rightarrow> Some p | None \<Rightarrow>
      (case (case pair of Some p \<Rightarrow> [] | None \<Rightarrow> (case g of Inl e \<Rightarrow> [] | Inr ps \<Rightarrow> ps)) of [] \<Rightarrow> None | b # r \<Rightarrow> Some b))"
  by (simp add: tickPair_def split: option.splits sum.splits list.splits)

text \<open>
  Claim C5. In one tick \<open>executeAll\<close> returns normally whatever the strategies do; every
  active strategy is invoked with the tick's pair and leaves its event (executed, or
  error) in the log, also when a strategy before it has thrown; and the exception of a
  throwing strategy is emitted as an error event.
\<close>

theorem executeAll_isolates:
  assumes "wellKeyed activeStrategies"
  shows "fst (executeAll activeStrategies getBestPairs pair) = Inr ()
    \<and> (\<forall>s \<in> set (map snd activeStrategies). str_isActive s \<longrightarrow>
          invocationEvent s (tickPair getBestPairs pair)
            \<in> set (snd (executeAll activeStrategies getBestPairs pair)))
    \<and> (\<forall>s \<in> set (map snd activeStrategies). \<forall>e. str_isActive s
          \<and> str_execute s (tickPair getBestPairs pair) = Inl e \<longrightarrow>
          StrategyError (str_id s) e \<in> set (snd (executeAll activeStrategies getBestPairs pair)))"
proof -
  let ?active = "filter str_isActive (map snd activeStrategies)"
  let ?best = "(case pair of Some p \<Rightarrow> [] | None \<Rightarrow> (case getBestPairs of Inl e \<Rightarrow> [] | Inr ps \<Rightarrow> ps))"
  have fst: "fst (executeAll activeStrategies getBestPairs pair) = Inr ()"
    by (simp add: executeAll_def Let_def)
  have inv: "invocationEvent s (tickPair getBestPairs pair)
            \<in> set (snd (executeAll activeStrategies getBestPairs pair))"
    if s: "s \<in> set (map snd activeStrategies)" "str_isActive s" for s
  proof -
    have mem: "s \<in> set ?active" using s by simp
    have ne: "?active \<noteq> []"
    proof
      assume "?active = []"
      with mem show False by (simp only: set_simps empty_iff)
    qed
    have look: "\<And>t. t \<in> set ?active \<Longrightarrow> map_of activeStrategies (str_id t) = Some t \<and> str_isActive t"
      using wellKeyed_lookup [OF assms] by simp
    have "invocationEvent s (tickPair getBestPairs pair)
        \<in> set (foldl (executeOne activeStrategies pair ?best) [] ?active)"
      using foldl_executeOne_invokes [where ss = ?active and m = activeStrategies and s = s
          and pair = pair and best = ?best and events = "[]"] look mem
      by (simp only: tickPair_eq)
    then show ?thesis by (simp add: executeAll_def Let_def ne del: filter_empty_conv)
  qed
  have err: "StrategyError (str_id s) e \<in> set (snd (executeAll activeStrategies getBestPairs pair))"
    if s: "s \<in> set (map snd activeStrategies)" "str_isActive s"
      "str_execute s (tickPair getBestPairs pair) = Inl e" for s e
    using inv [OF s(1,2)] s(3) by (simp add: invocationEvent_def)
  show ?thesis using fst inv err by blast
qed

theorem executeAll_isolates_witness:
  "wellKeyed [(''a'', failingStrategy), (''b'', workingStrategy)]
   \<and> executeAll [(''a'', failingStrategy), (''b'', workingStrategy)] (Inr [''BTCUSDT'']) None
      = (Inr (), [StrategyError ''a'' (Error ''boom''), StrategyError ''a'' (Error ''boom''),
                  StrategyExecuted ''b'' \<lparr> success = True, message = None \<rparr>])"
proof -
  have w: "wellKeyed [(''a'', failingStrategy), (''b'', workingStrategy)]"
    by (simp add: wellKeyed_def failingStrategy_def workingStrategy_def)
  have "executeAll [(''a'', failingStrategy), (''b'', workingStrategy)] (Inr [''BTCUSDT'']) None
      = (Inr (), [StrategyError ''a'' (Error ''boom''), StrategyError ''a'' (Error ''boom''),
                  StrategyExecuted ''b'' \<lparr> success = True, message = None \<rparr>])"
    by (simp add: executeAll_def executeOne_def executeStrategy_def failingStrategy_def workingStrategy_def)
  with w executeAll_isolates [OF w, of "Inr [''BTCUSDT'']" None] show ?thesis by simp
qed

section \<open>The trailing stop only moves up\<close>


lemma notLowered_refl: "notLowered a a"
  by (simp add: notLowered_def)









section \<open>Where the executed price and quantity come from\<close>

lemma invalid_iff: "invalidNum x \<longleftrightarrow> \<not> validNum x"
  by (cases x) (auto simp: validNum_def invalidNum_def jgt_def)

lemma extract_price_from_fills:
  "fillsGivePrice result \<Longrightarrow> e_price (extractExecutedFromResult result) = fst (fromFills result)"
  by (cases "fromFills result")
    (simp add: extractExecutedFromResult_def fillsGivePrice_def invalid_iff)

lemma extract_qty_from_fills:
  "validNum (snd (fromFills result)) \<Longrightarrow>
     e_qty (extractExecutedFromResult result) = snd (fromFills result)"
  by (cases "fromFills result") (simp add: extractExecutedFromResult_def invalid_iff)

lemma extract_price_reported:
  "\<not> fillsGivePrice result \<Longrightarrow> ex_price result = Some p \<Longrightarrow> validNum p \<Longrightarrow>
     e_price (extractExecutedFromResult result) = p"
  by (cases "fromFills result")
    (simp add: extractExecutedFromResult_def fillsGivePrice_def invalid_iff)

lemma resolve_local:
  "validNum (e_price (extractExecutedFromResult result)) \<Longrightarrow>
   validNum (e_qty (extractExecutedFromResult result)) \<Longrightarrow>
     resolveExecutedFromExchange getOrderStatus result = (extractExecutedFromResult result, [])"
  by (simp add: resolveExecutedFromExchange_def Let_def)

lemma resolve_queries_only_when_invalid:
  "snd (resolveExecutedFromExchange getOrderStatus result) \<noteq> [] \<Longrightarrow>
     invalidNum (e_price (extractExecutedFromResult result))
     \<or> invalidNum (e_qty (extractExecutedFromResult result))"
  using resolve_local [of result getOrderStatus] invalid_iff by fastforce

lemma truthy_valid: "validNum x \<Longrightarrow> truthy x"
  by (cases x) (auto simp: validNum_def jgt_def)

lemma valid_div: "validNum c \<Longrightarrow> validNum q \<Longrightarrow> validNum (jdiv c q)"
  by (cases c; cases q) (auto simp: validNum_def jgt_def)

lemma resolve_from_exchange:
  assumes "snd (resolveExecutedFromExchange getOrderStatus result) = [(symbol, orderId)]"
    and "getOrderStatus symbol orderId = Inr order"
    and "o_executedQty order = Some q" "validNum q"
    and "o_cummulativeQuoteQty order = Some c" "validNum c"
  shows "fst (resolveExecutedFromExchange getOrderStatus result)
           = \<lparr> e_price = jdiv c q, e_qty = q \<rparr>"
proof -
  have tq: "truthy q" and tp: "truthy (jdiv c q)" and gq: "jgt q (Fin 0)"
    using assms(4,6) truthy_valid valid_div by (auto simp: validNum_def)
  show ?thesis
    using assms tq tp gq
    by (auto simp: resolveExecutedFromExchange_def Let_def num_or_def
        split: if_splits option.splits sum.splits)
qed

lemma resolve_twoFills:
  "resolveExecutedFromExchange getOrderStatus twoFills = (\<lparr> e_price = Fin 101, e_qty = Fin 2 \<rparr>, [])"
  by (simp add: resolveExecutedFromExchange_def extractExecutedFromResult_def fromFills_def
      twoFills_def totalQty_def totalValue_def validNum_def invalidNum_def jgt_def Let_def)

lemma finite_realOf: "isFinite x \<Longrightarrow> x = Fin (realOf x)"
  by (cases x) (simp_all add: realOf_def)

lemma totalValue_fold_finite:
  "finiteFills fills \<Longrightarrow>
     foldl (\<lambda>sum f. jadd sum (jmul (f_price f) (f_qty f))) (Fin a) fills
       = Fin (a + (\<Sum>f\<leftarrow>fills. realOf (f_price f) * realOf (f_qty f)))"
proof (induction fills arbitrary: a)
  case Nil
  then show ?case by simp
next
  case (Cons f fills)
  then have p: "f_price f = Fin (realOf (f_price f))" and q: "f_qty f = Fin (realOf (f_qty f))"
    and rest: "finiteFills fills"
    by (simp_all add: finiteFills_def finite_realOf)
  have "jadd (Fin a) (jmul (f_price f) (f_qty f))
      = Fin (a + realOf (f_price f) * realOf (f_qty f))"
    by (subst p, subst q) simp
  then show ?case using Cons.IH [OF rest] by (simp add: add.assoc)
qed

lemma totalQty_fold_finite:
  "finiteFills fills \<Longrightarrow>
     foldl (\<lambda>sum f. jadd sum (f_qty f)) (Fin a) fills
       = Fin (a + (\<Sum>f\<leftarrow>fills. realOf (f_qty f)))"
proof (induction fills arbitrary: a)
  case Nil
  then show ?case by simp
next
  case (Cons f fills)
  then have q: "f_qty f = Fin (realOf (f_qty f))" and rest: "finiteFills fills"
    by (simp_all add: finiteFills_def finite_realOf)
  have "jadd (Fin a) (f_qty f) = Fin (a + realOf (f_qty f))"
    by (subst q) simp
  then show ?case using Cons.IH [OF rest] by (simp add: add.assoc)
qed

lemma extract_weighted_average:
  assumes "ex_fills result = Some fills" "fills \<noteq> []" "finiteFills fills"
    and q: "0 < (\<Sum>f\<leftarrow>fills. realOf (f_qty f))"
    and v: "0 < (\<Sum>f\<leftarrow>fills. realOf (f_price f) * realOf (f_qty f))"
  shows "extractExecutedFromResult result
           = \<lparr> e_price = Fin ((\<Sum>f\<leftarrow>fills. realOf (f_price f) * realOf (f_qty f))
                               / (\<Sum>f\<leftarrow>fills. realOf (f_qty f))),
               e_qty = Fin (\<Sum>f\<leftarrow>fills. realOf (f_qty f)) \<rparr>"
proof -
  let ?V = "\<Sum>f\<leftarrow>fills. realOf (f_price f) * realOf (f_qty f)"
  let ?Q = "\<Sum>f\<leftarrow>fills. realOf (f_qty f)"
  have tv: "totalValue fills = Fin ?V"
    using totalValue_fold_finite [OF assms(3), of 0] by (simp add: totalValue_def)
  have tq: "totalQty fills = Fin ?Q"
    using totalQty_fold_finite [OF assms(3), of 0] by (simp add: totalQty_def)
  have ff: "fromFills result = (Fin (?V / ?Q), Fin ?Q)"
    using assms(1,2) q by (simp add: fromFills_def tv tq jgt_def)
  have "0 < ?V / ?Q" using q v by simp
  then show ?thesis
    using q by (simp add: extractExecutedFromResult_def ff invalidNum_def)
qed

lemma no_fills_no_price:
  "ex_fills result = None \<or> ex_fills result = Some [] \<Longrightarrow> \<not> fillsGivePrice result"
  by (auto simp: fillsGivePrice_def fromFills_def validNum_def jgt_def)

lemma resolve_query_shape:
  assumes "snd (resolveExecutedFromExchange getOrderStatus result) \<noteq> []"
  shows "\<exists>symbol orderId. ex_symbol result = Some symbol \<and> ex_orderId result = Some orderId
           \<and> snd (resolveExecutedFromExchange getOrderStatus result) = [(symbol, orderId)]"
  using assms
  by (auto simp: resolveExecutedFromExchange_def Let_def
      split: if_splits option.splits sum.splits)

lemma resolve_from_exchange_values:
  assumes "snd (resolveExecutedFromExchange getOrderStatus result) = [(symbol, orderId)]"
    and "getOrderStatus symbol orderId = Inr order"
    and "o_executedQty order = Some (Fin q)" "0 < q"
    and "o_cummulativeQuoteQty order = Some (Fin c)" "0 < c"
  shows "fst (resolveExecutedFromExchange getOrderStatus result)
           = \<lparr> e_price = Fin (c / q), e_qty = Fin q \<rparr>"
proof -
  have "validNum (Fin q)" "validNum (Fin c)"
    using assms(4,6) by (simp_all add: validNum_def jgt_def)
  with resolve_from_exchange [OF assms(1,2,3) _ assms(5)]
  show ?thesis using assms(4) by simp
qed

lemma resolve_query_failed:
  assumes "snd (resolveExecutedFromExchange getOrderStatus result) = [(symbol, orderId)]"
    and "getOrderStatus symbol orderId = Inl e"
  shows "fst (resolveExecutedFromExchange getOrderStatus result)
           = localFallback (extractExecutedFromResult result)"
  using assms
  by (auto simp: resolveExecutedFromExchange_def Let_def
      split: if_splits option.splits sum.splits)

lemma resolve_unevenFills:
  "resolveExecutedFromExchange getOrderStatus unevenFills
     = (\<lparr> e_price = Fin 175, e_qty = Fin 4 \<rparr>, [])"
  by (simp add: resolveExecutedFromExchange_def extractExecutedFromResult_def fromFills_def
      unevenFills_def totalQty_def totalValue_def validNum_def invalidNum_def jgt_def Let_def)

text \<open>
  Claim C3, as the code has it. The executed price and quantity come from the fills
  first: with finite fills of positive total quantity and value, the price is the sum of
  price times quantity over the sum of the quantities, and the quantity is that sum,
  whatever the order reports. Without usable fills the price is the one the order
  reports, when that is valid. The exchange is queried only when the local price or
  quantity is invalid (not finite, or not positive), and only with a symbol and an order
  id. Once it is queried, a positive \<open>cummulativeQuoteQty / executedQty\<close> and the
  exchange's quantity are the result, also when the local price was valid; when the
  query fails the local values stay. The fills 1 at 100 and 1 at 102 reconcile to price
  101 and quantity 2 with no query, the fills 1 at 100 and 3 at 200 to 175 and 4.
\<close>

theorem reconciliation_sources:
  "(ex_fills result = Some fills \<and> fills \<noteq> [] \<and> finiteFills fills
      \<and> 0 < (\<Sum>f\<leftarrow>fills. realOf (f_qty f))
      \<and> 0 < (\<Sum>f\<leftarrow>fills. realOf (f_price f) * realOf (f_qty f)) \<longrightarrow>
      extractExecutedFromResult result
        = \<lparr> e_price = Fin ((\<Sum>f\<leftarrow>fills. realOf (f_price f) * realOf (f_qty f))
                            / (\<Sum>f\<leftarrow>fills. realOf (f_qty f))),
            e_qty = Fin (\<Sum>f\<leftarrow>fills. realOf (f_qty f)) \<rparr>)
   \<and> ((ex_fills result = None \<or> ex_fills result = Some [] \<or> \<not> fillsGivePrice result)
       \<and> ex_price result = Some p \<and> validNum p \<longrightarrow>
      e_price (extractExecutedFromResult result) = p)
   \<and> (validNum (e_price (extractExecutedFromResult result))
       \<and> validNum (e_qty (extractExecutedFromResult result)) \<longrightarrow>
      resolveExecutedFromExchange getOrderStatus result = (extractExecutedFromResult result, []))
   \<and> (snd (resolveExecutedFromExchange getOrderStatus result) \<noteq> [] \<longrightarrow>
      (invalidNum (e_price (extractExecutedFromResult result))
        \<or> invalidNum (e_qty (extractExecutedFromResult result)))
      \<and> (\<exists>sym oid. ex_symbol result = Some sym \<and> ex_orderId result = Some oid
            \<and> snd (resolveExecutedFromExchange getOrderStatus result) = [(sym, oid)]))
   \<and> (snd (resolveExecutedFromExchange getOrderStatus result) = [(symbol, orderId)]
       \<and> getOrderStatus symbol orderId = Inr order
       \<and> o_executedQty order = Some (Fin q) \<and> 0 < q
       \<and> o_cummulativeQuoteQty order = Some (Fin c) \<and> 0 < c \<longrightarrow>
      fst (resolveExecutedFromExchange getOrderStatus result)
        = \<lparr> e_price = Fin (c / q), e_qty = Fin q \<rparr>)
   \<and> (snd (resolveExecutedFromExchange getOrderStatus result) = [(symbol, orderId)]
       \<and> getOrderStatus symbol orderId = Inl e \<longrightarrow>
      fst (resolveExecutedFromExchange getOrderStatus result)
        = localFallback (extractExecutedFromResult result))
   \<and> resolveExecutedFromExchange getOrderStatus twoFills
        = (\<lparr> e_price = Fin 101, e_qty = Fin 2 \<rparr>, [])
   \<and> resolveExecutedFromExchange getOrderStatus unevenFills
        = (\<lparr> e_price = Fin 175, e_qty = Fin 4 \<rparr>, [])"
proof -
  have c2: "(ex_fills result = None \<or> ex_fills result = Some [] \<or> \<not> fillsGivePrice result)
       \<and> ex_price result = Some p \<and> validNum p \<longrightarrow>
      e_price (extractExecutedFromResult result) = p"
    using no_fills_no_price [of result] extract_price_reported [of result p] by blast
  show ?thesis
    using extract_weighted_average [of result fills] c2
      resolve_local [of result getOrderStatus]
      resolve_queries_only_when_invalid [of getOrderStatus result]
      resolve_query_shape [of getOrderStatus result]
      resolve_from_exchange_values [of getOrderStatus result symbol orderId order q c]
      resolve_query_failed [of getOrderStatus result symbol orderId e]
      resolve_twoFills [of getOrderStatus] resolve_unevenFills [of getOrderStatus]
    by blast
qed

theorem reconciliation_sources_witness:
  "finiteFills (the (ex_fills unevenFills))
   \<and> 0 < (\<Sum>f\<leftarrow>the (ex_fills unevenFills). realOf (f_qty f))
   \<and> 0 < (\<Sum>f\<leftarrow>the (ex_fills unevenFills). realOf (f_price f) * realOf (f_qty f))
   \<and> extractExecutedFromResult unevenFills = \<lparr> e_price = Fin 175, e_qty = Fin 4 \<rparr>
   \<and> ex_fills priceOnly = None \<and> ex_price priceOnly = Some (Fin 100) \<and> validNum (Fin 100)
   \<and> e_price (extractExecutedFromResult priceOnly) = Fin 100
   \<and> validNum (e_price (extractExecutedFromResult twoFills))
   \<and> validNum (e_qty (extractExecutedFromResult twoFills))
   \<and> resolveExecutedFromExchange knownOrder twoFills
       = (\<lparr> e_price = Fin 101, e_qty = Fin 2 \<rparr>, [])
   \<and> snd (resolveExecutedFromExchange knownOrder bareOrder) = [(''BTCUSDT'', 7)]
   \<and> invalidNum (e_price (extractExecutedFromResult bareOrder))
   \<and> fst (resolveExecutedFromExchange knownOrder bareOrder)
       = \<lparr> e_price = Fin 101, e_qty = Fin 2 \<rparr>
   \<and> snd (resolveExecutedFromExchange failingQuery bareOrder) = [(''BTCUSDT'', 7)]
   \<and> fst (resolveExecutedFromExchange failingQuery bareOrder)
       = \<lparr> e_price = Fin 0, e_qty = Fin 0 \<rparr>"
proof -
  let ?fs = "[\<lparr> f_price = Fin 100, f_qty = Fin 1, f_commission = Fin 0,
                 f_commissionAsset = ''USDT'' \<rparr>,
               \<lparr> f_price = Fin 200, f_qty = Fin 3, f_commission = Fin 0,
                 f_commissionAsset = ''USDT'' \<rparr>]"
  let ?known = "\<lparr> o_executedQty = Some (Fin 2), o_cummulativeQuoteQty = Some (Fin 202) \<rparr>"
  have u: "ex_fills unevenFills = Some ?fs" "the (ex_fills unevenFills) = ?fs"
    by (simp_all add: unevenFills_def)
  have uf: "finiteFills ?fs" by (simp add: finiteFills_def)
  have uq: "(\<Sum>f\<leftarrow>?fs. realOf (f_qty f)) = 4"
    and uv: "(\<Sum>f\<leftarrow>?fs. realOf (f_price f) * realOf (f_qty f)) = 700"
    by (simp_all add: realOf_def)
  have po: "ex_fills priceOnly = None" "ex_price priceOnly = Some (Fin 100)"
    by (simp_all add: priceOnly_def)
  have v: "validNum (Fin 100)" "validNum (Fin 101)" "validNum (Fin 2)"
    by (simp_all add: validNum_def jgt_def)
  have t: "extractExecutedFromResult twoFills = \<lparr> e_price = Fin 101, e_qty = Fin 2 \<rparr>"
    by (simp add: extractExecutedFromResult_def fromFills_def twoFills_def totalQty_def
        totalValue_def invalidNum_def jgt_def)
  have b: "extractExecutedFromResult bareOrder = \<lparr> e_price = Fin 0, e_qty = Fin 0 \<rparr>"
    by (simp add: extractExecutedFromResult_def fromFills_def bareOrder_def invalidNum_def
        validNum_def jgt_def)
  have bo: "ex_symbol bareOrder = Some ''BTCUSDT''" "ex_orderId bareOrder = Some 7"
    by (simp_all add: bareOrder_def)
  have bk: "snd (resolveExecutedFromExchange knownOrder bareOrder) = [(''BTCUSDT'', 7)]"
    and bf: "snd (resolveExecutedFromExchange failingQuery bareOrder) = [(''BTCUSDT'', 7)]"
    by (simp_all add: resolveExecutedFromExchange_def b bo knownOrder_def
        failingQuery_def validNum_def jgt_def Let_def)
  have k: "knownOrder ''BTCUSDT'' 7 = Inr ?known" by (simp add: knownOrder_def)
  have f: "failingQuery ''BTCUSDT'' 7 = Inl (Error ''timeout'')" by (simp add: failingQuery_def)
  have lf: "localFallback \<lparr> e_price = Fin 0, e_qty = Fin 0 \<rparr> = \<lparr> e_price = Fin 0, e_qty = Fin 0 \<rparr>"
    by (simp add: localFallback_def num_or_def)
  have iv: "invalidNum (Fin 0)" by (simp add: invalidNum_def)
  note A = reconciliation_sources [of unevenFills ?fs "Fin 0" knownOrder "''BTCUSDT''" 7 ?known
      2 202 "Error ''timeout''", THEN conjunct1]
  note B = reconciliation_sources [of priceOnly "[]" "Fin 100" knownOrder "''BTCUSDT''" 7 ?known
      2 202 "Error ''timeout''", THEN conjunct2, THEN conjunct1]
  note C = reconciliation_sources [of twoFills "[]" "Fin 0" knownOrder "''BTCUSDT''" 7 ?known
      2 202 "Error ''timeout''", THEN conjunct2, THEN conjunct2, THEN conjunct1]
  note D = reconciliation_sources [of bareOrder "[]" "Fin 0" knownOrder "''BTCUSDT''" 7 ?known
      2 202 "Error ''timeout''", THEN conjunct2, THEN conjunct2, THEN conjunct2,
      THEN conjunct2, THEN conjunct1]
  note E = reconciliation_sources [of bareOrder "[]" "Fin 0" failingQuery "''BTCUSDT''" 7 ?known
      2 202 "Error ''timeout''", THEN conjunct2, THEN conjunct2, THEN conjunct2,
      THEN conjunct2, THEN conjunct2, THEN conjunct1]
  have w1: "extractExecutedFromResult unevenFills = \<lparr> e_price = Fin 175, e_qty = Fin 4 \<rparr>"
    using A u(1) uf by (simp add: realOf_def)
  have w2: "e_price (extractExecutedFromResult priceOnly) = Fin 100"
    using B po v(1) by simp
  have w3: "resolveExecutedFromExchange knownOrder twoFills
       = (\<lparr> e_price = Fin 101, e_qty = Fin 2 \<rparr>, [])"
    using C v(2,3) by (simp add: t)
  have w4: "fst (resolveExecutedFromExchange knownOrder bareOrder)
       = \<lparr> e_price = Fin 101, e_qty = Fin 2 \<rparr>"
    using D bk k by simp
  have w5: "fst (resolveExecutedFromExchange failingQuery bareOrder)
       = \<lparr> e_price = Fin 0, e_qty = Fin 0 \<rparr>"
    using E bf f by (simp add: b lf)
  show ?thesis
    using w1 w2 w3 w4 w5 uf po v bk bf iv
    by (simp add: u(2) realOf_def t b)
qed

text \<open>
  The claim puts the price the order reports before the exchange. The resolved price
  does not keep that order: an order without fills that reports the valid price 100 and
  no executed quantity is looked up at the exchange, and the price returned is the
  exchange's \<open>202 / 2 = 101\<close>, not the reported 100.
\<close>

theorem reported_price_overridden:
  "ex_fills reportedPriceNoQty = None
   \<and> ex_price reportedPriceNoQty = Some (Fin 100) \<and> validNum (Fin 100)
   \<and> e_price (extractExecutedFromResult reportedPriceNoQty) = Fin 100
   \<and> resolveExecutedFromExchange knownOrder reportedPriceNoQty
       = (\<lparr> e_price = Fin 101, e_qty = Fin 2 \<rparr>, [(''BTCUSDT'', 7)])"
  by (simp add: resolveExecutedFromExchange_def extractExecutedFromResult_def fromFills_def
      reportedPriceNoQty_def knownOrder_def validNum_def invalidNum_def jgt_def num_or_def
      Let_def)

section \<open>What the monitor's exits write\<close>

text \<open>
  The stop-loss exit sells, appends one trade row and closes the position; the
  take-profit exit sells and closes the position, and leaves the \<open>trades\<close> table as it
  was; a position that breaches neither threshold gets its price and unrealized P&L
  refreshed.
\<close>

lemma executeTakeProfit_keeps_trades:
  "db_trades (snd (executeTakeProfit ex now db positionId)) = db_trades db"
  by (simp add: executeTakeProfit_def Let_def split: option.splits sum.splits)

lemma sweepOne_take_profit_keeps_trades:
  "x_getPrice ex (pos_symbol position) = Inr currentPrice \<Longrightarrow>
   \<not> breachesStopLoss position currentPrice \<Longrightarrow> breachesTakeProfit position currentPrice \<Longrightarrow>
     db_trades (sweepOne ex now db position) = db_trades db"
  by (simp add: sweepOne_def executeTakeProfit_keeps_trades)

lemma executeStopLoss_records_and_closes:
  assumes "find (\<lambda>p. pos_id p = positionId) (db_positions db) = Some position"
    and "pos_isOpen position"
    and "x_marketSell ex (pos_symbol position) (pos_quantity position) = Inr result"
  shows "\<exists>trade. executeStopLoss ex now db positionId
           = (Inr (), \<lparr> db_positions = closeRows now (executedPriceOf ex position result)
                                          positionId (db_positions db),
                       db_trades = db_trades db @ [trade] \<rparr>)
           \<and> tr_positionId trade = Some positionId \<and> tr_side trade = SELL
           \<and> tr_price trade = executedPriceOf ex position result"
  using assms by (auto simp: executeStopLoss_def Let_def dest: find_holds)

lemma executeTakeProfit_closes:
  assumes "find (\<lambda>p. pos_id p = positionId) (db_positions db) = Some position"
    and "pos_isOpen position"
    and "x_marketSell ex (pos_symbol position) (pos_quantity position) = Inr result"
  shows "executeTakeProfit ex now db positionId
           = (Inr (), \<lparr> db_positions = closeRows now (executedPriceOf ex position result)
                                          positionId (db_positions db),
                       db_trades = db_trades db \<rparr>)"
  using assms by (simp add: executeTakeProfit_def Let_def)

lemma closeRows_closes:
  "find (\<lambda>p. pos_id p = positionId) ps = Some position \<Longrightarrow>
     \<exists>p. find (\<lambda>p. pos_id p = positionId) (closeRows now price positionId ps) = Some p
       \<and> \<not> pos_isOpen p \<and> pos_closedAt p = Some now"
  by (auto simp: closeRows_def find_map_same_id dest: find_holds)

lemma sweepOne_refreshes:
  "x_getPrice ex (pos_symbol position) = Inr currentPrice \<Longrightarrow>
   \<not> breachesStopLoss position currentPrice \<Longrightarrow> \<not> breachesTakeProfit position currentPrice \<Longrightarrow>
     sweepOne ex now db position
       = db\<lparr> db_positions := refreshRows currentPrice position (db_positions db) \<rparr>"
  by (simp add: sweepOne_def)

text \<open>
  Claim C4 says that on a breach of the stop-loss or of the take-profit the sweep places
  a market exit, records a trade and closes the position. For the take-profit this is
  not what the code does. One open position (entry 100, quantity 1, stop 95, target 110),
  a fetched price of 120 and a market sell filled at 120: the sweep closes the position
  (\<open>isOpen\<close> false, \<open>closedAt\<close> set) and the \<open>trades\<close> table stays empty.
\<close>

theorem take_profit_exit_records_no_trade:
  "breachesTakeProfit examplePosition (Fin 120)
   \<and> checkAndExecuteStopLosses (fillingAt 120) 1000 oneOpenPosition
      = \<lparr> db_positions =
            [examplePosition\<lparr> pos_isOpen := False, pos_closedAt := Some 1000,
               pos_currentPrice := Some (Fin 120), pos_unrealizedPnl := Some (Fin 0),
               pos_unrealizedPnlPercent := Some (Fin 0) \<rparr>],
          db_trades = [] \<rparr>"
  by (simp add: checkAndExecuteStopLosses_def sweepOne_def executeTakeProfit_def
      executedPriceOf_def extractExecutedFromResult_def fromFills_def asExecutedLike_def
      totalQty_def totalValue_def invalidNum_def validNum_def closeRows_def
      breachesStopLoss_def breachesTakeProfit_def oneOpenPosition_def examplePosition_def
      fillingAt_def jgt_def jge_def Let_def)

text \<open>The same position at a fetched price of 90: the stop-loss exit records the trade.\<close>

lemma stop_loss_exit_records_trade:
  "breachesStopLoss examplePosition (Fin 90)
   \<and> checkAndExecuteStopLosses (fillingAt 90) 1000 oneOpenPosition
      = \<lparr> db_positions =
            [examplePosition\<lparr> pos_isOpen := False, pos_closedAt := Some 1000,
               pos_currentPrice := Some (Fin 90), pos_unrealizedPnl := Some (Fin 0),
               pos_unrealizedPnlPercent := Some (Fin 0) \<rparr>],
          db_trades =
            [\<lparr> tr_positionId = Some ''p1'', tr_strategyId = ''s1'', tr_symbol = ''ETHUSDT'',
               tr_side = SELL, tr_orderType = MARKET, tr_quantity = Fin 1, tr_price = Fin 90,
               tr_fee = Fin (3 / 25), tr_feeAsset = ''USDT'', tr_pnl = Fin (- (253 / 25)),
               tr_pnlPercent = Fin (- 10), tr_binanceOrderId = Some ''7'',
               tr_status = ''FILLED'' \<rparr>] \<rparr>"
  by (simp add: checkAndExecuteStopLosses_def sweepOne_def executeStopLoss_def
      executedPriceOf_def extractExecutedFromResult_def fromFills_def asExecutedLike_def
      totalQty_def totalValue_def invalidNum_def validNum_def closeRows_def
      breachesStopLoss_def oneOpenPosition_def examplePosition_def feeOf_def feeAssetOf_def
      fillingAt_def jgt_def jge_def jsub_def Let_def int_toString_def digits.simps digit_char_def)

section \<open>Refusing a trade without a positive price\<close>

text \<open>
  Claim C2. When the price of the trade is not a finite number above zero (zero,
  negative, NaN or infinite), \<open>saveTrade\<close> throws and the \<open>trades\<close> table is the one it
  was called with: no row is inserted.
\<close>

theorem saveTrade_refuses:
  "\<not> positivePrice (td_price tradeData) \<Longrightarrow>
     saveTrade reparse insertOutcome strategyId trades tradeData
       = (Inl (Error ''Refuse to save trade with non-positive price''), trades)"
  by (cases "td_price tradeData") (auto simp: saveTrade_def positivePrice_def)

theorem saveTrade_refuses_witness:
  "\<not> positivePrice (td_price (exampleTrade (Fin 0)))
   \<and> saveTrade id (Inr ()) ''s1'' [] (exampleTrade (Fin 0))
       = (Inl (Error ''Refuse to save trade with non-positive price''), [])
   \<and> \<not> positivePrice (td_price (exampleTrade NaN))
   \<and> saveTrade id (Inr ()) ''s1'' [] (exampleTrade NaN)
       = (Inl (Error ''Refuse to save trade with non-positive price''), [])
   \<and> \<not> positivePrice (td_price (exampleTrade (Fin (- 5))))
   \<and> saveTrade id (Inr ()) ''s1'' [] (exampleTrade (Fin (- 5)))
       = (Inl (Error ''Refuse to save trade with non-positive price''), [])"
  using saveTrade_refuses [of "exampleTrade (Fin 0)" id "Inr ()" "''s1''" "[]"]
    saveTrade_refuses [of "exampleTrade NaN" id "Inr ()" "''s1''" "[]"]
    saveTrade_refuses [of "exampleTrade (Fin (- 5))" id "Inr ()" "''s1''" "[]"]
  by (simp add: positivePrice_def exampleTrade_def)

text \<open>With a positive price and a storage that accepts the insert, one row is appended.\<close>

lemma saveTrade_accepts:
  "positivePrice (td_price tradeData) \<Longrightarrow>
     \<exists>row. saveTrade reparse (Inr ()) strategyId trades tradeData = (Inr (), trades @ [row])
       \<and> tr_price row = formatNumber reparse (Some (td_price tradeData))"
  by (cases "td_price tradeData") (auto simp: saveTrade_def positivePrice_def)

section \<open>The decimal string of a large number\<close>

lemma replicate_numeral: "replicate (numeral k) x = x # replicate (pred_numeral k) x"
  by (simp add: numeral_eq_Suc)

lemmas format_defs = replicate_numeral toDbNumberString_def formatNumber_def round8_def
  toFixed8_def exponent_form_def fixed_digits_def digits.simps digit_char_def Let_def
  strip_zeros_def strip_dot_def is_decimal_string_def has_leading_zero_def is_digit_def

text \<open>Numbers that are not finite, and an absent one, become the string \<open>0\<close>.\<close>

lemma non_finite_to_zero:
  "\<not> isFinite v \<Longrightarrow> toDbNumberString v = ''0'' \<and> formatNumber reparse (Some v) = ''0''"
  by (cases v) (simp_all add: toDbNumberString_def formatNumber_def)

lemma undefined_to_zero: "formatNumber reparse None = ''0''"
  by (simp add: formatNumber_def)

text \<open>Ordinary amounts come out in fixed-point form, without trailing zeros.\<close>

lemma toDbNumberString_examples:
  "toDbNumberString (Fin 120) = ''120''
   \<and> toDbNumberString (Fin (- 3 / 2)) = ''-1.5''
   \<and> toDbNumberString (Fin (1 / 3)) = ''0.33333333''
   \<and> toDbNumberString (Fin (- 1 / 1000000000)) = ''0''
   \<and> formatNumber reparse (Some (Fin (- 1 / 4))) = ''-0.25''"
  by (simp add: format_defs)

subsection \<open>The shape of the string below the exponent range\<close>

lemma digit_char_is_digit: "d < 10 \<Longrightarrow> is_digit (digit_char d)"
proof -
  assume "d < 10"
  then have "d \<in> {0, 1, 2, 3, 4, 5, 6, 7, 8, 9}" by auto
  then show ?thesis by (auto simp: is_digit_def digit_char_def)
qed

lemma digits_are_digits: "list_all is_digit (digits n)"
proof (induction n rule: digits.induct)
  case (1 n)
  show ?case
  proof (cases "n < 10")
    case True
    then show ?thesis by (subst digits.simps) (simp add: digit_char_is_digit)
  next
    case False
    with 1 have "list_all is_digit (digits (n div 10))" by simp
    then show ?thesis using False
      by (subst digits.simps) (simp add: digit_char_is_digit)
  qed
qed

lemma digits_not_empty: "digits n \<noteq> []"
  by (subst digits.simps) simp

lemma fixed_digits_shape:
  "\<exists>a b. fixed_digits n = a @ CHR ''.'' # b \<and> a \<noteq> [] \<and> length b = 8
         \<and> list_all is_digit a \<and> list_all is_digit b"
proof -
  define m where "m = (if length (digits n) \<le> 8
                        then replicate (9 - length (digits n)) CHR ''0'' @ digits n
                        else digits n)"
  have dig: "list_all is_digit m"
    using digits_are_digits [of n] by (auto simp: m_def list_all_iff is_digit_def)
  have len: "9 \<le> length m" by (auto simp: m_def)
  have eq: "fixed_digits n = take (length m - 8) m @ CHR ''.'' # drop (length m - 8) m"
    by (simp add: fixed_digits_def m_def Let_def)
  have "take (length m - 8) m \<noteq> []" using len by auto
  moreover have "length (drop (length m - 8) m) = 8" using len by simp
  moreover have "list_all is_digit (take (length m - 8) m)"
    using dig by (auto simp: list_all_iff dest: in_set_takeD)
  moreover have "list_all is_digit (drop (length m - 8) m)"
    using dig by (auto simp: list_all_iff dest: in_set_dropD)
  ultimately show ?thesis using eq by blast
qed

lemma strip_zeros_after_dot:
  "strip_zeros (p @ CHR ''.'' # b) = p @ CHR ''.'' # strip_zeros b"
  by (simp add: strip_zeros_def dropWhile_append)

lemma strip_zeros_last:
  assumes "strip_zeros b \<noteq> []"
  shows "last (strip_zeros b) \<noteq> CHR ''0''"
proof -
  have ne: "dropWhile (\<lambda>c. c = CHR ''0'') (rev b) \<noteq> []"
    using assms by (simp add: strip_zeros_def)
  then have "hd (dropWhile (\<lambda>c. c = CHR ''0'') (rev b)) \<noteq> CHR ''0''"
    using hd_dropWhile [of "\<lambda>c. c = CHR ''0''" "rev b"] by simp
  then show ?thesis using ne by (simp add: strip_zeros_def last_rev)
qed

lemma strip_zeros_subset: "set (strip_zeros b) \<subseteq> set b"
  by (auto simp: strip_zeros_def dest: set_dropWhileD)

lemma strip_zeros_length: "length (strip_zeros b) \<le> length b"
  by (simp add: strip_zeros_def length_dropWhile_le [of _ "rev b", simplified])

lemma round8_finite:
  assumes "\<bar>x\<bar> \<le> 10 ^ 20"
  shows "\<exists>r. round8 (Fin x) = Fin r \<and> \<bar>r\<bar> < 10 ^ 21 \<and> \<bar>r - x\<bar> \<le> 1 / 200000000"
proof -
  define k where "k = \<lfloor>x * 100000000 + 1 / 2\<rfloor>"
  have r: "round8 (Fin x) = Fin (of_int k / 100000000)"
    by (simp add: round8_def k_def)
  have up: "of_int k \<le> x * 100000000 + 1 / 2" unfolding k_def by (rule of_int_floor_le)
  have lo: "x * 100000000 + 1 / 2 - 1 < of_int k" unfolding k_def by linarith
  have "of_int k / 100000000 - x \<le> 1 / 200000000" "- (1 / 200000000) \<le> of_int k / 100000000 - x"
    using up lo by (simp_all add: field_simps)
  then have close: "\<bar>of_int k / 100000000 - x\<bar> \<le> 1 / 200000000"
    by linarith
  then have "\<bar>of_int k / 100000000 :: real\<bar> \<le> \<bar>x\<bar> + 1 / 200000000" by linarith
  moreover have "(10 :: real) ^ 20 + 1 / 200000000 < 10 ^ 21" by simp
  ultimately have "\<bar>of_int k / 100000000 :: real\<bar> < 10 ^ 21" using assms by linarith
  with r close show ?thesis by blast
qed

text \<open>
  Up to \<open>10^20\<close> in absolute value the string is an optional sign, an integer part and,
  when the number is not whole after rounding, a point and at most eight fraction
  digits of which the last is not a zero.
\<close>

lemma toDbNumberString_fixed_point:
  assumes "\<bar>x\<bar> \<le> 10 ^ 20"
  shows "\<exists>sign a f. toDbNumberString (Fin x) = sign @ a @ (if f = [] then [] else CHR ''.'' # f)
           \<and> (sign = [] \<or> sign = ''-'') \<and> a \<noteq> [] \<and> list_all is_digit a
           \<and> list_all is_digit f \<and> length f \<le> 8 \<and> (f \<noteq> [] \<longrightarrow> last f \<noteq> CHR ''0'')"
proof -
  obtain r where r: "round8 (Fin x) = Fin r" "\<bar>r\<bar> < 10 ^ 21"
    using round8_finite [OF assms] by blast
  define sign where "sign = (if r < 0 then ''-'' else [])"
  obtain a b where ab: "fixed_digits (nat \<lfloor>\<bar>r\<bar> * 10 ^ 8 + 1 / 2\<rfloor>) = a @ CHR ''.'' # b"
    "a \<noteq> []" "length b = 8" "list_all is_digit a" "list_all is_digit b"
    using fixed_digits_shape by blast
  have fx: "toFixed8 (Fin r) = sign @ a @ CHR ''.'' # b"
    using r(2) ab(1) by (simp add: toFixed8_def sign_def)
  let ?f = "strip_zeros b"
  have fdig: "list_all is_digit ?f"
    using ab(5) strip_zeros_subset [of b] by (auto simp: list_all_iff)
  have flen: "length ?f \<le> 8" using strip_zeros_length [of b] ab(3) by simp
  have sz: "strip_zeros (toFixed8 (Fin r)) = sign @ a @ CHR ''.'' # ?f"
    using strip_zeros_after_dot [of "sign @ a" b] by (simp add: fx)
  have res: "toDbNumberString (Fin x) = strip_dot (sign @ a @ CHR ''.'' # ?f)"
    by (simp add: toDbNumberString_def r(1) Let_def fx sz [unfolded fx])
  have "toDbNumberString (Fin x) = sign @ a @ (if ?f = [] then [] else CHR ''.'' # ?f)"
  proof (cases "?f = []")
    case True
    then show ?thesis by (simp add: res strip_dot_def butlast_append)
  next
    case False
    then have "last ?f \<in> set ?f" by simp
    then have "is_digit (last ?f)" using fdig by (simp add: list_all_iff)
    then have "last ?f \<noteq> CHR ''.''" by (auto simp: is_digit_def)
    then show ?thesis using False by (simp add: res strip_dot_def)
  qed
  moreover have "sign = [] \<or> sign = ''-''" by (simp add: sign_def)
  moreover have "?f \<noteq> [] \<longrightarrow> last ?f \<noteq> CHR ''0''" using strip_zeros_last by blast
  ultimately show ?thesis using ab(2,4) fdig flen by blast
qed

text \<open>
  Claim C9 says that the normalization returns, for every finite number, a fixed-point
  string without scientific notation. From \<open>10^21\<close> on, \<open>toFixed\<close> returns the exponent
  form, and both normalizers pass it on: the finite number \<open>10^22\<close> becomes \<open>1e+22\<close>, which
  is not a decimal string, through \<open>toDbNumberString\<close> and through \<open>formatNumber\<close> (whose
  fallback for a malformed result calls \<open>toFixed\<close> again).
\<close>

theorem large_number_in_exponent_form:
  "isFinite (Fin 10000000000000000000000)
   \<and> toDbNumberString (Fin 10000000000000000000000) = ''1e+22''
   \<and> formatNumber reparse (Some (Fin 10000000000000000000000)) = ''1e+22''
   \<and> \<not> is_decimal_string ''1e+22''"
  by (simp add: format_defs)

section \<open>The range of the pair score\<close>

subsection \<open>The sub-scores\<close>

lemma inRangeI: "lo \<le> s \<Longrightarrow> s \<le> hi \<Longrightarrow> inRange lo hi (Fin s)"
  by (simp add: inRange_def)

lemma scoreRSI_finite:
  "scoreRSI (Fin s) = Fin (if s < 30 then 30 + (30 - s) / 30 * 40
                           else if 70 < s then 70 - (s - 70) / 30 * 40 else 60)"
  by (simp add: scoreRSI_def jsub_def jgt_def)

lemma scoreRSI_range:
  assumes "rsi = NaN \<or> inRange 0 100 rsi"
  shows "inRange 30 70 (scoreRSI rsi)"
proof -
  from assms consider "rsi = NaN" | s where "rsi = Fin s" "0 \<le> s" "s \<le> 100"
    by (auto simp: inRange_def)
  then show ?thesis
  proof cases
    case 1
    then show ?thesis by (simp add: scoreRSI_def inRange_def)
  next
    case 2
    then show ?thesis by (auto simp: inRange_def scoreRSI_finite)
  qed
qed

lemma scoreMACD_range: "inRange 30 80 (scoreMACD macd)"
  by (simp add: scoreMACD_def inRange_def Let_def)

lemma scoreVolume_range: "inRange 20 100 (scoreVolume currentVolume avgVolume)"
  by (simp add: scoreVolume_def inRange_def Let_def)

lemma scoreMomentum_range: "inRange 50 100 (scoreMomentum prices sma20 ema50)"
  by (simp add: scoreMomentum_def inRange_def Let_def jgt_def)

lemma scoreVolatility_range: "inRange 30 70 (scoreVolatility prices support resistance currentPrice)"
  by (simp add: scoreVolatility_def inRange_def Let_def)

lemma weightedScore_range:
  assumes "inRange 30 70 (fac_rsi f)" "inRange 30 80 (fac_macd f)" "inRange 0 150 (fac_bollinger f)"
    "inRange 20 100 (fac_volume f)" "inRange 50 100 (fac_momentum f)"
    "inRange 30 70 (fac_volatility f)"
  shows "inRange 0 100 (weightedScore f)"
  using assms by (auto simp: inRange_def weightedScore_def)

lemma jadd_nonNegative:
  "nonNegative acc \<Longrightarrow> jgt x (Fin 0) \<Longrightarrow> nonNegative (jadd acc x)"
  by (cases acc; cases x) (auto simp: nonNegative_def jgt_def)

lemma foldl_jadd_nonNegative:
  "nonNegative acc \<Longrightarrow> \<forall>x \<in> set ys. jgt x (Fin 0) \<Longrightarrow> nonNegative (foldl jadd acc ys)"
  by (induction ys arbitrary: acc) (simp_all add: jadd_nonNegative)

lemma jabs_of_negative: "jlt c (Fin 0) \<Longrightarrow> jgt (jabs c) (Fin 0)"
  by (cases c) (auto simp: jgt_def)

lemma average_nonNegative:
  assumes "\<forall>x \<in> set ys. jgt x (Fin 0)" "0 < period"
  shows "nonNegative (if ys \<noteq> [] then jdiv (jsum ys) (Fin (real period)) else Fin 0)"
proof -
  have "nonNegative (jsum ys)"
    unfolding jsum_def using assms(1) by (intro foldl_jadd_nonNegative) (simp_all add: nonNegative_def)
  then have "nonNegative (jdiv (jsum ys) (Fin (real period)))"
    using assms(2) by (cases "jsum ys") (auto simp: nonNegative_def)
  then show ?thesis by (simp add: nonNegative_def)
qed

lemma nonNegative_nonzero:
  "nonNegative l \<Longrightarrow> l \<noteq> Fin 0 \<Longrightarrow> l = PInf \<or> (\<exists>b. l = Fin b \<and> 0 < b)"
  by (auto simp: nonNegative_def order.strict_iff_order)

lemma rsi_formula_range:
  assumes "nonNegative g" "nonNegative l" "l \<noteq> Fin 0"
  shows "jsub (Fin 100) (jdiv (Fin 100) (jadd (Fin 1) (jdiv g l))) = NaN
       \<or> inRange 0 100 (jsub (Fin 100) (jdiv (Fin 100) (jadd (Fin 1) (jdiv g l))))"
proof -
  from assms(1) consider "g = PInf" | a where "g = Fin a" "0 \<le> a"
    by (auto simp: nonNegative_def)
  then show ?thesis
  proof cases
    case 1
    from nonNegative_nonzero [OF assms(2,3)] consider "l = PInf" | b where "l = Fin b" "0 < b"
      by blast
    then show ?thesis using 1 by cases (auto simp: jsub_def inRange_def)
  next
    case 2
    from nonNegative_nonzero [OF assms(2,3)] consider "l = PInf" | b where "l = Fin b" "0 < b"
      by blast
    then show ?thesis
    proof cases
      case 1
      then show ?thesis using 2 by (auto simp: jsub_def inRange_def)
    next
      case 2
      note l = this
      have pos: "0 < 1 + a / b" using \<open>0 \<le> a\<close> l(2) by (simp add: add_pos_nonneg)
      have "0 \<le> a / b" using \<open>0 \<le> a\<close> l(2) by simp
      then have le: "100 / (1 + a / b) \<le> 100"
        using pos by (simp add: divide_le_eq)
      have ge: "0 \<le> 100 / (1 + a / b)" using pos by simp
      have "jsub (Fin 100) (jdiv (Fin 100) (jadd (Fin 1) (jdiv g l)))
          = Fin (100 - 100 / (1 + a / b))"
        using \<open>g = Fin a\<close> l pos by (simp add: jsub_def)
      then show ?thesis using le ge by (simp add: inRange_def)
    qed
  qed
qed

lemma rsiOf_range:
  assumes "0 < period"
  shows "rsiOf cs period = NaN \<or> inRange 0 100 (rsiOf cs period)"
proof -
  let ?gains = "filter (\<lambda>c. jgt c (Fin 0)) cs"
  let ?losses = "map jabs (filter (\<lambda>c. jlt c (Fin 0)) cs)"
  let ?g = "if ?gains \<noteq> [] then jdiv (jsum ?gains) (Fin (real period)) else Fin 0"
  let ?l = "if ?losses \<noteq> [] then jdiv (jsum ?losses) (Fin (real period)) else Fin 0"
  have g: "nonNegative ?g" using assms by (intro average_nonNegative) simp_all
  have l: "nonNegative ?l"
    using assms by (intro average_nonNegative) (auto simp: jabs_of_negative)
  show ?thesis
  proof (cases "?l = Fin 0")
    case True
    then have "rsiOf cs period = Fin 100" by (simp add: rsiOf_def Let_def)
    then show ?thesis by (simp add: inRange_def)
  next
    case False
    then have "rsiOf cs period = jsub (Fin 100) (jdiv (Fin 100) (jadd (Fin 1) (jdiv ?g ?l)))"
      by (simp add: rsiOf_def Let_def)
    then show ?thesis using rsi_formula_range [OF g l False] by simp
  qed
qed

lemma last_num_map_upt:
  "0 < n \<Longrightarrow> last_num (map f [0..<n]) = f (n - 1)"
  by (simp add: last_num_def num_at_def)

lemma calculateRSI_last:
  "last_num (calculateRSI prices 14) = NaN \<or> inRange 0 100 (last_num (calculateRSI prices 14))"
proof (cases "prices = []")
  case True
  then show ?thesis by (simp add: calculateRSI_def last_num_def)
next
  case False
  then have n: "0 < length prices" by simp
  show ?thesis
    unfolding calculateRSI_def Let_def last_num_map_upt [OF n]
    using rsiOf_range [of 14] by auto
qed

subsection \<open>Sums of numbers\<close>

lemma foldl_jadd_Fin: "foldl jadd (Fin a) (map Fin xs) = Fin (a + sum_list xs)"
  by (induction xs arbitrary: a) (simp_all add: add.assoc)

lemma jadd_finite: "isFinite (jadd a b) \<Longrightarrow> isFinite a \<and> isFinite b"
  by (cases a; cases b) auto

lemma foldl_jadd_finite:
  "isFinite (foldl jadd acc ys) \<Longrightarrow> isFinite acc \<and> (\<forall>y \<in> set ys. isFinite y)"
proof (induction ys arbitrary: acc)
  case Nil then show ?case by simp
next
  case (Cons y ys)
  from Cons.IH [of "jadd acc y"] Cons.prems
  have "isFinite (jadd acc y)" "\<forall>z \<in> set ys. isFinite z" by simp_all
  with jadd_finite [of acc y] show ?case by simp
qed

lemma all_finite_map_Fin: "\<forall>y \<in> set ys. isFinite y \<Longrightarrow> \<exists>xs. ys = map Fin xs"
proof (induction ys)
  case Nil then show ?case by simp
next
  case (Cons y ys)
  then obtain xs where "ys = map Fin xs" by auto
  moreover obtain x where "y = Fin x" using Cons.prems by (cases y) auto
  ultimately show ?case by (intro exI [of _ "x # xs"]) simp
qed

lemma jadd_NaN_right: "jadd a NaN = NaN"
  by (cases a) auto

lemma foldl_jadd_from_NaN: "foldl jadd NaN ys = NaN"
  by (induction ys) auto

lemma foldl_jadd_NaN: "NaN \<in> set ys \<Longrightarrow> foldl jadd acc ys = NaN"
  by (induction ys arbitrary: acc) (auto simp: jadd_NaN_right foldl_jadd_from_NaN)

lemma jadd_PInf: "jadd a b = PInf \<Longrightarrow> a = PInf \<or> b = PInf"
  by (cases a; cases b) auto

lemma jadd_NInf: "jadd a b = NInf \<Longrightarrow> a = NInf \<or> b = NInf"
  by (cases a; cases b) auto

lemma foldl_jadd_PInf: "foldl jadd acc ys = PInf \<Longrightarrow> acc = PInf \<or> PInf \<in> set ys"
proof (induction ys arbitrary: acc)
  case Nil then show ?case by simp
next
  case (Cons y ys)
  from Cons.IH [of "jadd acc y"] Cons.prems have "jadd acc y = PInf \<or> PInf \<in> set ys" by simp
  with jadd_PInf [of acc y] show ?case by auto
qed

lemma foldl_jadd_NInf: "foldl jadd acc ys = NInf \<Longrightarrow> acc = NInf \<or> NInf \<in> set ys"
proof (induction ys arbitrary: acc)
  case Nil then show ?case by simp
next
  case (Cons y ys)
  from Cons.IH [of "jadd acc y"] Cons.prems have "jadd acc y = NInf \<or> NInf \<in> set ys" by simp
  with jadd_NInf [of acc y] show ?case by auto
qed

subsection \<open>The variance of a window\<close>

lemma variance_fold_as_sum:
  "foldl (\<lambda>sum price. jadd sum (jpow2 (jsub price mean))) acc ys
     = foldl jadd acc (map (\<lambda>price. jpow2 (jsub price mean)) ys)"
  by (induction ys arbitrary: acc) simp_all

text \<open>A window with a value that is not finite has no variance, and no bands.\<close>

lemma varianceOf_not_finite:
  assumes "\<not> isFinite (jsum W)" "W \<noteq> []" "0 < k"
  shows "varianceOf W (jdiv (jsum W) (Fin (real k))) n = NaN"
proof -
  let ?mean = "jdiv (jsum W) (Fin (real k))"
  have "NaN \<in> set (map (\<lambda>price. jpow2 (jsub price ?mean)) W)"
  proof (cases "jsum W")
    case NaN
    obtain w where "w \<in> set W" using assms(2) by (cases W) auto
    moreover have "jpow2 (jsub w ?mean) = NaN"
      using NaN by (simp add: jsub_def jpow2_def jadd_NaN_right)
    ultimately show ?thesis by force
  next
    case PInf
    then have "PInf \<in> set W" using foldl_jadd_PInf [of "Fin 0" W] by (simp add: jsum_def)
    moreover have "jpow2 (jsub PInf ?mean) = NaN"
      using PInf by (simp add: jsub_def jpow2_def)
    ultimately show ?thesis by force
  next
    case NInf
    then have "NInf \<in> set W" using foldl_jadd_NInf [of "Fin 0" W] by (simp add: jsum_def)
    moreover have "jpow2 (jsub NInf ?mean) = NaN"
      using NInf by (simp add: jsub_def jpow2_def)
    ultimately show ?thesis by force
  next
    case (Fin s)
    with assms(1) show ?thesis by simp
  qed
  then show ?thesis
    by (simp add: varianceOf_def variance_fold_as_sum foldl_jadd_NaN)
qed

lemma variance_fold_Fin:
  "foldl (\<lambda>sum price. jadd sum (jpow2 (jsub price (Fin m)))) (Fin a) (map Fin xs)
     = Fin (a + (\<Sum>x\<leftarrow>xs. (x - m)\<^sup>2))"
  by (induction xs arbitrary: a) (simp_all add: jsub_def jpow2_def power2_eq_square add.assoc)

lemma varianceOf_Fin:
  "0 < n \<Longrightarrow> varianceOf (map Fin xs) (Fin m) n = Fin ((\<Sum>x\<leftarrow>xs. (x - m)\<^sup>2) / real n)"
  by (simp add: varianceOf_def variance_fold_Fin)

lemma member_le_sum_list_nonneg:
  fixes x :: real
  assumes "\<forall>y \<in> set ys. 0 \<le> y" "x \<in> set ys"
  shows "x \<le> sum_list ys"
  using assms
proof (induction ys)
  case Nil then show ?case by simp
next
  case (Cons y ys)
  have nn: "0 \<le> sum_list ys" using Cons.prems(1) by (simp add: sum_list_nonneg)
  show ?case
  proof (cases "x = y")
    case True then show ?thesis using nn by simp
  next
    case False
    then have "x \<le> sum_list ys" using Cons by simp
    moreover have "0 \<le> y" using Cons.prems(1) by simp
    ultimately show ?thesis by simp
  qed
qed

lemma deviation_le_total:
  fixes q m :: real
  assumes "q \<in> set xs"
  shows "(q - m)\<^sup>2 \<le> (\<Sum>x\<leftarrow>xs. (x - m)\<^sup>2)"
  using assms by (intro member_le_sum_list_nonneg) auto

subsection \<open>Where the last price lies between the bands\<close>

lemma bollinger_position:
  fixes q m V sd :: real
  assumes dev: "(q - m)\<^sup>2 \<le> V" and sd: "sd = sqrt (V / 20)" and nz: "sd \<noteq> 0"
  shows "- (5 / 8) \<le> (q - (m - sd * 2)) / ((m + sd * 2) - (m - sd * 2))"
    and "(q - (m - sd * 2)) / ((m + sd * 2) - (m - sd * 2)) \<le> 13 / 8"
proof -
  have V: "0 \<le> V" using dev zero_le_power2 [of "q - m"] by linarith
  have sd0: "0 \<le> sd" using sd V by simp
  then have pos: "0 < sd" using nz by simp
  have "sd\<^sup>2 = V / 20" using sd V by simp
  then have "(q - m)\<^sup>2 \<le> 20 * sd\<^sup>2" using dev by simp
  also have "\<dots> \<le> (9 / 2 * sd)\<^sup>2" by (simp add: power2_eq_square)
  finally have "\<bar>q - m\<bar> \<le> 9 / 2 * sd"
    using sd0 by (intro power2_le_imp_le [of "\<bar>q - m\<bar>"]) simp_all
  then have lo: "- (9 / 2 * sd) \<le> q - m" and hi: "q - m \<le> 9 / 2 * sd" by linarith+
  have w: "(m + sd * 2) - (m - sd * 2) = 4 * sd" by simp
  show "- (5 / 8) \<le> (q - (m - sd * 2)) / ((m + sd * 2) - (m - sd * 2))"
    unfolding w using pos lo by (simp add: le_divide_eq)
  show "(q - (m - sd * 2)) / ((m + sd * 2) - (m - sd * 2)) \<le> 13 / 8"
    unfolding w using pos hi by (simp add: divide_le_eq)
qed

lemma scoreBollinger_at:
  assumes "last_num (b_upper bs) = Fin u" "last_num (b_lower bs) = Fin l"
    and "d = (q - l) / (u - l)"
  shows "scoreBollinger (Fin q) bs =
           (if u - l = 0 then Fin 50
            else if d < 2 / 10 then Fin (80 - d * 100)
            else if 8 / 10 < d then Fin (20 + (1 - d) * 30)
            else Fin 50)"
  using assms by (simp add: scoreBollinger_def Let_def jsub_def jgt_def)

lemma scoreBollinger_NaN:
  "last_num (b_upper bs) = NaN \<Longrightarrow> scoreBollinger price bs = Fin 50"
  by (simp add: scoreBollinger_def Let_def)

lemma scoreBollinger_bounded_position:
  assumes "last_num (b_upper bs) = Fin u" "last_num (b_lower bs) = Fin l"
    and "u - l \<noteq> 0 \<Longrightarrow> - (5 / 8) \<le> (q - l) / (u - l) \<and> (q - l) / (u - l) \<le> 13 / 8"
  shows "inRange 0 150 (scoreBollinger (Fin q) bs)"
proof -
  define d where "d = (q - l) / (u - l)"
  have eq: "scoreBollinger (Fin q) bs =
           (if u - l = 0 then Fin 50
            else if d < 2 / 10 then Fin (80 - d * 100)
            else if 8 / 10 < d then Fin (20 + (1 - d) * 30)
            else Fin 50)"
    using scoreBollinger_at [OF assms(1,2) d_def] .
  show ?thesis
  proof (cases "u - l = 0")
    case True
    then show ?thesis unfolding eq by (simp add: inRange_def)
  next
    case False
    with assms(3) have "- (5 / 8) \<le> d" "d \<le> 13 / 8" by (simp_all add: d_def)
    then show ?thesis unfolding eq inRange_def using False by auto
  qed
qed

subsection \<open>The last bands of a price series\<close>

lemma bands_last:
  assumes "0 < length prices"
  shows "last_num (b_upper (calculateBollingerBands prices period stdDev))
           = fst (bandAt prices period stdDev (length prices - 1))"
    and "last_num (b_lower (calculateBollingerBands prices period stdDev))
           = snd (snd (bandAt prices period stdDev (length prices - 1)))"
  using assms by (simp_all add: calculateBollingerBands_def last_num_map_upt)

lemma sma_last:
  assumes "period \<le> length prices" "0 < period"
  shows "num_at (calculateSMA prices period) (length prices - 1)
           = jdiv (jsum (drop (length prices - period) prices)) (Fin (real period))"
proof -
  have i: "length prices - 1 < length prices" using assms by simp
  have "\<not> length prices - 1 + 1 < period" using assms by simp
  moreover have "length prices - 1 + 1 - period = length prices - period" using assms by simp
  ultimately show ?thesis using i assms
    by (simp add: calculateSMA_def num_at_def)
qed

lemma bandAt_last:
  assumes "period \<le> length prices" "0 < period"
  shows "bandAt prices period stdDev (length prices - 1) =
     (let W = drop (length prices - period) prices;
          mean = jdiv (jsum W) (Fin (real period));
          sd = jsqrt (varianceOf W mean period)
      in (jadd mean (jmul sd stdDev), mean, jsub mean (jmul sd stdDev)))"
proof -
  have a: "\<not> length prices - 1 + 1 < period" using assms by simp
  have b: "length prices - 1 + 1 - period = length prices - period" using assms by simp
  have c: "take period (drop (length prices - period) prices) = drop (length prices - period) prices"
    using assms by simp
  show ?thesis
    unfolding bandAt_def Let_def by (simp only: a b c sma_last [OF assms] if_False)
qed

lemma last_num_last: "xs \<noteq> [] \<Longrightarrow> last_num xs = last xs"
  by (simp add: last_num_def num_at_def last_conv_nth)

lemma scoreBollinger_short:
  assumes "length prices < 20"
  shows "scoreBollinger price (calculateBollingerBands prices 20 stdDev) = Fin 50"
proof (cases "prices = []")
  case True
  then show ?thesis
    by (simp add: scoreBollinger_NaN calculateBollingerBands_def last_num_def)
next
  case False
  then have n: "0 < length prices" by simp
  have "length prices - 1 + 1 < 20" using assms n by simp
  then have "bandAt prices 20 stdDev (length prices - 1) = (NaN, NaN, NaN)"
    unfolding bandAt_def by (simp only: if_True)
  then show ?thesis
    using bands_last(1) [OF n, of 20 stdDev] by (simp add: scoreBollinger_NaN)
qed

lemma scoreBollinger_window:
  assumes len: "length W = 20" and p: "price = last W"
    and up: "last_num (b_upper bs) =
               jadd (jdiv (jsum W) (Fin 20))
                 (jmul (jsqrt (varianceOf W (jdiv (jsum W) (Fin 20)) 20)) (Fin 2))"
    and lo: "last_num (b_lower bs) =
               jsub (jdiv (jsum W) (Fin 20))
                 (jmul (jsqrt (varianceOf W (jdiv (jsum W) (Fin 20)) 20)) (Fin 2))"
  shows "inRange 0 150 (scoreBollinger price bs)"
proof (cases "isFinite (jsum W)")
  case False
  have "W \<noteq> []" using len by auto
  then have "varianceOf W (jdiv (jsum W) (Fin (real (20::nat)))) 20 = NaN"
    using varianceOf_not_finite [OF False, of 20 20] by simp
  then have "last_num (b_upper bs) = NaN"
    using up by (simp add: jadd_NaN_right)
  then show ?thesis by (simp add: scoreBollinger_NaN inRange_def)
next
  case True
  then have "\<forall>y \<in> set W. isFinite y"
    using foldl_jadd_finite [of "Fin 0" W] by (simp add: jsum_def)
  then obtain xs where W: "W = map Fin xs" using all_finite_map_Fin by blast
  have xs: "xs \<noteq> []" using len W by auto
  define m where "m = sum_list xs / 20"
  define V where "V = (\<Sum>x\<leftarrow>xs. (x - m)\<^sup>2)"
  define sd where "sd = sqrt (V / 20)"
  have V0: "0 \<le> V" unfolding V_def by (intro sum_list_nonneg) auto
  have mean: "jdiv (jsum W) (Fin 20) = Fin m"
    by (simp add: W jsum_def foldl_jadd_Fin m_def)
  have var: "varianceOf W (Fin m) 20 = Fin (V / 20)"
    using varianceOf_Fin [of 20 xs m] by (simp add: W V_def)
  have sdev: "jsqrt (varianceOf W (Fin m) 20) = Fin sd"
    using V0 by (simp add: var sd_def)
  have u: "last_num (b_upper bs) = Fin (m + sd * 2)"
    by (simp add: up mean sdev)
  have l: "last_num (b_lower bs) = Fin (m - sd * 2)"
    by (simp add: lo mean sdev jsub_def)
  have q: "price = Fin (last xs)" using p xs by (simp add: W last_map)
  have dev: "(last xs - m)\<^sup>2 \<le> V"
    unfolding V_def using xs by (intro deviation_le_total) simp
  have pos: "- (5 / 8) \<le> (last xs - (m - sd * 2)) / ((m + sd * 2) - (m - sd * 2))
      \<and> (last xs - (m - sd * 2)) / ((m + sd * 2) - (m - sd * 2)) \<le> 13 / 8"
    if "(m + sd * 2) - (m - sd * 2) \<noteq> 0"
  proof -
    from that have "sd \<noteq> 0" by simp
    with bollinger_position [OF dev sd_def] show ?thesis by blast
  qed
  show ?thesis
    unfolding q using scoreBollinger_bounded_position [OF u l pos] by simp
qed

lemma scoreBollinger_range:
  "inRange 0 150 (scoreBollinger (last_num prices) (calculateBollingerBands prices 20 (Fin 2)))"
proof (cases "length prices < 20")
  case True
  then show ?thesis by (simp add: scoreBollinger_short inRange_def)
next
  case False
  then have len: "20 \<le> length prices" by simp
  then have n: "0 < length prices" by linarith
  then have ne: "prices \<noteq> []" by auto
  let ?W = "drop (length prices - 20) prices"
  have lw: "length ?W = 20" using len by simp
  have p: "last_num prices = last ?W" using ne len by (simp add: last_num_last)
  have band: "bandAt prices 20 (Fin 2) (length prices - 1) =
      (jadd (jdiv (jsum ?W) (Fin 20)) (jmul (jsqrt (varianceOf ?W (jdiv (jsum ?W) (Fin 20)) 20)) (Fin 2)),
       jdiv (jsum ?W) (Fin 20),
       jsub (jdiv (jsum ?W) (Fin 20)) (jmul (jsqrt (varianceOf ?W (jdiv (jsum ?W) (Fin 20)) 20)) (Fin 2)))"
    using bandAt_last [OF len, of "Fin 2"] by (simp add: Let_def)
  show ?thesis
    by (rule scoreBollinger_window [OF lw p])
       (simp_all only: bands_last [OF n] band fst_conv snd_conv)
qed

subsection \<open>The composite score\<close>

lemma scoreFactors_ranges:
  "inRange 30 70 (fac_rsi (scoreFactors klines))"
  "inRange 30 80 (fac_macd (scoreFactors klines))"
  "inRange 0 150 (fac_bollinger (scoreFactors klines))"
  "inRange 20 100 (fac_volume (scoreFactors klines))"
  "inRange 50 100 (fac_momentum (scoreFactors klines))"
  "inRange 30 70 (fac_volatility (scoreFactors klines))"
  unfolding scoreFactors_def Let_def
  by (simp_all add: scoreRSI_range calculateRSI_last scoreMACD_range scoreVolume_range
      scoreMomentum_range scoreVolatility_range scoreBollinger_range getCurrentPrice_def
      split: prod.splits)

text \<open>
  Claim C8. For every pair and whatever the candle fetch returns (any candles, with
  finite, infinite or NaN fields, and so also a last price outside the Bollinger bands),
  the composite score of \<open>scorePair\<close> is a finite number between 0 and 100; and when the
  fetch throws, the result is the pair with score 0 and all six sub-scores 0.
\<close>

theorem scorePair_in_range:
  "inRange 0 100 (ps_score (scorePair pair fetch))
   \<and> scorePair pair (Inl e) = zeroScore pair"
proof -
  have "inRange 0 100 (ps_score (scorePair pair fetch))"
  proof (cases fetch)
    case (Inl err)
    then show ?thesis by (simp add: scorePair_def zeroScore_def inRange_def)
  next
    case (Inr klines)
    show ?thesis
    proof (cases "klines = []")
      case True
      then show ?thesis using Inr by (simp add: scorePair_def zeroScore_def inRange_def)
    next
      case False
      have "inRange 0 100 (weightedScore (scoreFactors klines))"
        by (intro weightedScore_range scoreFactors_ranges)
      then show ?thesis using Inr False by (simp add: scorePair_def Let_def)
    qed
  qed
  then show ?thesis by (simp add: scorePair_def)
qed

text \<open>One flat candle at 100: every indicator is neutral, the volume is average.\<close>

lemma scoreFactors_one_candle:
  "scoreFactors [flatCandle 100]
     = \<lparr> fac_rsi = Fin 50, fac_macd = Fin 50, fac_bollinger = Fin 50, fac_volume = Fin 60,
         fac_momentum = Fin 50, fac_volatility = Fin 50 \<rparr>"
  by (simp add: scoreFactors_def flatCandle_def getCurrentPrice_def calculateRSI_def
      calculateMACD_def calculateEMA_def calculateSMA_def calculateBollingerBands_def bandAt_def
      calculateSupportResistance_def calculateAverageVolume_def last_num_def prev_num_def
      num_at_def scoreRSI_def scoreMACD_def scoreBollinger_def scoreVolume_def
      scoreMomentum_def scoreVolatility_def strictEq_def jsum_def jsub_def jgt_def jge_def
      num_or_def Let_def)

theorem scorePair_in_range_witness:
  "inRange 0 100 (ps_score (scorePair examplePair (Inr [flatCandle 100])))
   \<and> ps_score (scorePair examplePair (Inr [flatCandle 100])) = Fin (103 / 2)
   \<and> scorePair examplePair (Inl (Error ''timeout'')) = zeroScore examplePair"
proof -
  have "ps_score (scorePair examplePair (Inr [flatCandle 100])) = Fin (103 / 2)"
    by (simp add: scorePair_def scoreFactors_one_candle weightedScore_def Let_def)
  with scorePair_in_range [of examplePair "Inr [flatCandle 100]" "Error ''timeout''"]
  show ?thesis by simp
qed

subsection \<open>A sub-score outside 0 to 100\<close>

text \<open>
  The Bollinger sub-score is not confined to the range 0 to 100: after eighteen closes at
  100 and two at 90 the bands are 93 and 105, the last price lies below the lower band,
  and the sub-score is 105. The weight of 0.15 keeps the composite in range.
\<close>

lemma sqrt_9: "sqrt 9 = 3"
  by (rule real_sqrt_unique) simp_all

lemma bollinger_subscore_above_100:
  "scoreBollinger (last_num droppingPrices) (calculateBollingerBands droppingPrices 20 (Fin 2))
     = Fin 105"
proof -
  let ?xs = "replicate 18 100 @ [90, 90 :: real]"
  have len: "length droppingPrices = 20" by (simp add: droppingPrices_def)
  have W: "droppingPrices = map Fin ?xs" by (simp add: droppingPrices_def)
  have s: "sum_list ?xs = 1980" by (simp add: sum_list_replicate)
  have mean: "jdiv (jsum droppingPrices) (Fin 20) = Fin 99"
    unfolding W jsum_def foldl_jadd_Fin s by simp
  have v: "(\<Sum>x\<leftarrow>?xs. (x - 99)\<^sup>2) = 180" by (simp add: sum_list_replicate)
  have var: "varianceOf droppingPrices (Fin 99) 20 = Fin 9"
    unfolding W using varianceOf_Fin [of 20 ?xs 99] unfolding v by simp
  have band: "bandAt droppingPrices 20 (Fin 2) (length droppingPrices - 1) = (Fin 105, Fin 99, Fin 93)"
    using bandAt_last [of 20 droppingPrices "Fin 2"] len
    by (simp add: mean var sqrt_9 jsub_def Let_def)
  have up: "last_num (b_upper (calculateBollingerBands droppingPrices 20 (Fin 2))) = Fin 105"
    and lo: "last_num (b_lower (calculateBollingerBands droppingPrices 20 (Fin 2))) = Fin 93"
    using bands_last [of droppingPrices 20 "Fin 2"] len band by simp_all
  have p: "last_num droppingPrices = Fin 90"
    by (simp add: last_num_last droppingPrices_def)
  show ?thesis
    unfolding p using scoreBollinger_at [OF up lo, of "- (1 / 4)" 90] by simp
qed

end
